theory Spec2Isabelle
  imports Main
begin

section \<open>Data model (types.ts)\<close>

text \<open>
  Interfaces are records, enums are datatypes, optional fields are options.  Field names
  shared by several interfaces (\<open>id\<close>, \<open>name\<close>, \<open>description\<close>, \<open>title\<close>) carry the
  owner as a prefix.  A JavaScript \<open>number\<close> that holds a scene number or a position is
  an \<open>int\<close> (the response schemas declare them as integers).  Strings are ASCII; the
  pictograph that opens most log lines of the source is left out of the log literals.
\<close>

datatype AppState = SCRIPT_UPLOAD | PROCESSING | REVIEW | COMPLETE | ERROR

datatype ProcessingStage =
    ANALYZING_SCRIPT
  | CASTING_VOICE_ACTORS
  | GENERATING_VOICE_CLIPS
  | ANALYZING_STYLE
  | GENERATING_CHARACTERS
  | GENERATING_STORYBOARD
  | RENDERING_VIDEO

datatype QualityMode = standard | high

record VoiceActor =
  actor_name :: string
  vocalStyle :: string

record Character =
  char_id :: string
  char_name :: string
  char_description :: string
  imageUrl :: string
  voiceActor :: "VoiceActor option"
  voiceLine :: "string option"

record Scene =
  scene_id :: string
  sceneNumber :: int
  scene_description :: string
  storyboardVideoUrl :: string

record SceneSuggestion =
  suggestion_id :: string
  suggestion_title :: string
  reasoning :: string
  sceneDescription :: string
  suggestedLocation :: int

record ImagePart =
  inline_data :: "string option"
  mimeType :: string

record Movie =
  title :: string
  logline :: string
  script :: string
  characters :: "Character list"
  scenes :: "Scene list"
  videoUrl :: string
  musicStyle :: "string option"
  inspirationImagePart :: "ImagePart option"
  stylePrompt :: "string option"
  quality :: QualityMode

text \<open>
  A browser \<open>File\<close>: its MIME type and its name.  What \<open>FileReader\<close> reads from it is
  given by the environment defined below.
\<close>

record File =
  file_type :: string
  file_name :: string

text \<open>
  A thrown value: an \<open>Error\<close> with its message, or anything else.  The handlers of the
  source tell them apart with \<open>err instanceof Error\<close>.
\<close>

datatype js_exn = JsError string | NotAnError

section \<open>The state held by the App component\<close>

text \<open>
  One field per \<open>useState\<close> cell that the orchestration reads or writes; the cells that
  only drive the view (\<open>isStartingUp\<close>, \<open>voiceCommand\<close>, \<open>logoUrl\<close>) are left out.
  A setter is a record update.  A callback reads two kinds of variable: the cells'
  current values, through functional updates (\<open>prev => ...\<close>), and the values its
  closure captured at the render that created it (\<open>movieData\<close>, \<open>processingStage\<close>);
  the captured values are explicit parameters of the handlers below.
\<close>

record App =
  appState :: AppState
  movieData :: "Movie option"
  processingLog :: "string list"
  error :: "string option"
  processingStage :: ProcessingStage
  hasVisualReference :: bool
  sceneSuggestions :: "SceneSuggestion list"

definition initialApp :: App where
  "initialApp =
     \<lparr>appState = SCRIPT_UPLOAD, movieData = None, processingLog = [], error = None,
      processingStage = ANALYZING_SCRIPT, hasVisualReference = False, sceneSuggestions = []\<rparr>"

definition addLog :: "string \<Rightarrow> App \<Rightarrow> App" where
  "addLog message s = s\<lparr>processingLog := processingLog s @ [message]\<rparr>"

section \<open>String helpers\<close>

fun startsWith :: "string \<Rightarrow> string \<Rightarrow> bool" where
  "startsWith s [] = True"
| "startsWith [] (p # ps) = False"
| "startsWith (c # s) (p # ps) = (c = p \<and> startsWith s ps)"

fun includesStr :: "string \<Rightarrow> string \<Rightarrow> bool" where
  "includesStr [] t = (t = [])"
| "includesStr (c # s) t = (startsWith (c # s) t \<or> includesStr s t)"

text \<open>\<open>toLowerCase\<close> on ASCII text: the letters A to Z are mapped, every other character is kept.\<close>

definition lowerOf :: "char \<Rightarrow> char" where
  "lowerOf c =
     (case map_of (zip ''ABCDEFGHIJKLMNOPQRSTUVWXYZ'' ''abcdefghijklmnopqrstuvwxyz'') c of
        Some l \<Rightarrow> l
      | None \<Rightarrow> c)"

definition toLowerCase :: "string \<Rightarrow> string" where
  "toLowerCase s = map lowerOf s"

text \<open>A number inside a template literal: its decimal digits, with a sign when negative.\<close>

definition digitChar :: "nat \<Rightarrow> char" where
  "digitChar d = ''0123456789'' ! d"

fun decimal :: "nat \<Rightarrow> string" where
  "decimal n = (if 10 \<le> n then decimal (n div 10) @ [digitChar (n mod 10)] else [digitChar n])"

declare decimal.simps [simp del]

definition numberToString :: "int \<Rightarrow> string" where
  "numberToString x = (if 0 \<le> x then decimal (nat x) else CHR ''-'' # decimal (nat (- x)))"

section \<open>Id-keyed updates of the document\<close>

text \<open>
  Each update maps over the list and rewrites every element whose id matches; the local
  variable set inside the callback ends up holding the name (or number) of the last
  match, and decides whether a log line is written.  On an unset document the updater
  returns \<open>null\<close>.
\<close>

definition handleUpdateCharacterImage :: "string \<Rightarrow> string \<Rightarrow> App \<Rightarrow> App" where
  "handleUpdateCharacterImage characterId newImageUrl s =
     (case movieData s of
        None \<Rightarrow> s\<lparr>movieData := None\<rparr>
      | Some prev \<Rightarrow>
          let characterName =
                foldl (\<lambda>acc c. if char_id c = characterId then char_name c else acc) ''''
                  (characters prev);
              newCharacters =
                map (\<lambda>c. if char_id c = characterId then c\<lparr>imageUrl := newImageUrl\<rparr> else c)
                  (characters prev);
              s' = (if newImageUrl \<noteq> '''' \<and> characterName \<noteq> ''''
                    then addLog (''Updated visual for character: '' @ characterName @ ''.'') s
                    else s)
          in s'\<lparr>movieData := Some (prev\<lparr>characters := newCharacters\<rparr>)\<rparr>)"

definition handleUpdateSceneVideo :: "string \<Rightarrow> string \<Rightarrow> App \<Rightarrow> App" where
  "handleUpdateSceneVideo sceneId newVideoUrl s =
     (case movieData s of
        None \<Rightarrow> s\<lparr>movieData := None\<rparr>
      | Some prev \<Rightarrow>
          let sceneNumber' =
                foldl (\<lambda>acc sc. if scene_id sc = sceneId then sceneNumber sc else acc) (- 1)
                  (scenes prev);
              newScenes =
                map (\<lambda>sc. if scene_id sc = sceneId then sc\<lparr>storyboardVideoUrl := newVideoUrl\<rparr>
                          else sc)
                  (scenes prev);
              s' = (if newVideoUrl \<noteq> '''' \<and> sceneNumber' > - 1
                    then addLog (''Updated animated storyboard for Scene ''
                                  @ numberToString sceneNumber' @ ''.'') s
                    else s)
          in s'\<lparr>movieData := Some (prev\<lparr>scenes := newScenes\<rparr>)\<rparr>)"

definition handleUpdateCharacterVoiceLine :: "string \<Rightarrow> string \<Rightarrow> App \<Rightarrow> App" where
  "handleUpdateCharacterVoiceLine characterId newVoiceLine s =
     (case movieData s of
        None \<Rightarrow> s\<lparr>movieData := None\<rparr>
      | Some prev \<Rightarrow>
          let characterName =
                foldl (\<lambda>acc c. if char_id c = characterId then char_name c else acc) ''''
                  (characters prev);
              newCharacters =
                map (\<lambda>c. if char_id c = characterId then c\<lparr>voiceLine := Some newVoiceLine\<rparr>
                         else c)
                  (characters prev);
              s' = (if characterName \<noteq> ''''
                    then addLog (''Updated voice line for '' @ characterName @ ''.'') s
                    else s)
          in s'\<lparr>movieData := Some (prev\<lparr>characters := newCharacters\<rparr>)\<rparr>)"

section \<open>Collaborators\<close>

text \<open>
  The generative services, the file reader and the random id source are outside the
  program; they are the fields of an environment, and every statement below holds for
  all environments.  A call that can reject returns \<open>Inl\<close> of the thrown value.  The two
  services that catch their own failures (\<open>generateSceneSuggestions\<close>, \<open>matchVoiceActors\<close>)
  return a plain value.  The services called once per item take the position of the call
  in its stage as first argument, so that two calls with equal arguments may settle
  differently.  A \<open>Map\<close> is the list of its entries.  \<open>IS_DEMO_MODE\<close> is the constant
  of the configuration module.
\<close>

record AnalysisJson =
  json_title :: "string option"
  json_logline :: "string option"
  json_characters :: "(string \<times> string) list option"
  json_scenes :: "(int \<times> string) list option"

record ScriptAnalysis =
  analysis_title :: string
  analysis_logline :: string
  analysis_characters :: "Character list"
  analysis_scenes :: "Scene list"

record Env =
  IS_DEMO_MODE :: bool
  randomUUID :: "nat \<Rightarrow> string"
  generateContent_analysis :: "string \<Rightarrow> js_exn + AnalysisJson"
  readAsDataURL :: "File \<Rightarrow> string option"
  analyzeImageStyle :: "ImagePart \<Rightarrow> js_exn + string"
  generateSceneSuggestions :: "string \<Rightarrow> Scene list \<Rightarrow> SceneSuggestion list"
  matchVoiceActors :: "Character list \<Rightarrow> (string \<times> VoiceActor) list"
  generateCharacterVoiceLine :: "nat \<Rightarrow> Character \<Rightarrow> js_exn + string"
  generateCharacterImage :: "nat \<Rightarrow> string \<Rightarrow> string option \<Rightarrow> QualityMode \<Rightarrow> js_exn + string"
  generateStoryboardVideo :: "nat \<Rightarrow> string \<Rightarrow> string option \<Rightarrow> QualityMode \<Rightarrow> js_exn + string"
  renderInVideoVideo :: "Movie \<Rightarrow> string list \<times> (js_exn + string)"

text \<open>
  The settlement of an asynchronous handler together with the state it leaves: \<open>Inr\<close>
  when its promise resolves, \<open>Inl\<close> with the thrown value when it rejects.
\<close>

type_synonym settled = "(js_exn \<times> App) + App"

section \<open>Script analysis (services/geminiService.ts)\<close>

definition mockAnalysis_characters :: "(string \<times> string) list" where
  "mockAnalysis_characters =
     [(''Kael'', ''A grizzled starship pilot with a heart of gold.''),
      (''Zora'', ''A brilliant and determined xenobotanist.''),
      (''Unit 734'', ''A witty and resourceful droid companion.'')]"

definition mockAnalysis_scenes :: "(int \<times> string) list" where
  "mockAnalysis_scenes =
     [(1, ''The bridge of the starship 'Stardust Drifter'. Kael and Zora receive a distress signal.''),
      (2, ''The lush, alien jungle of Xylos. The team navigates through glowing flora.''),
      (3, ''A cavern deep within the jungle. They discover a stranded research team.''),
      (4, ''The 'Stardust Drifter' speeds away from Xylos, the rescued team safely aboard.'')]"

text \<open>
  The two \<open>map\<close> calls that add an id and an empty asset reference to every parsed
  character and scene; the ids are drawn in order, characters first.
\<close>

definition withCharacterIds :: "(nat \<Rightarrow> string) \<Rightarrow> (string \<times> string) list \<Rightarrow> Character list" where
  "withCharacterIds uuid cs =
     map (\<lambda>((n, d), k).
            \<lparr>char_id = uuid k, char_name = n, char_description = d, imageUrl = '''',
             voiceActor = None, voiceLine = None\<rparr>)
       (zip cs [0 ..< length cs])"

definition withSceneIds :: "(nat \<Rightarrow> string) \<Rightarrow> nat \<Rightarrow> (int \<times> string) list \<Rightarrow> Scene list" where
  "withSceneIds uuid offset scs =
     map (\<lambda>((n, d), k).
            \<lparr>scene_id = uuid (offset + k), sceneNumber = n, scene_description = d,
             storyboardVideoUrl = ''''\<rparr>)
       (zip scs [0 ..< length scs])"

text \<open>\<open>x || d\<close> on an optional string: a missing or empty \<open>x\<close> gives \<open>d\<close>.\<close>

definition orDefault :: "string option \<Rightarrow> string \<Rightarrow> string" where
  "orDefault x d = (case x of None \<Rightarrow> d | Some v \<Rightarrow> if v = '''' then d else v)"

definition analyzeScript :: "Env \<Rightarrow> string \<Rightarrow> js_exn + ScriptAnalysis" where
  "analyzeScript env script' =
     (if IS_DEMO_MODE env then
        Inr \<lparr>analysis_title = ''Galactic Rescue (Demo)'',
             analysis_logline = ''A grizzled pilot and a determined botanist race against time to save a stranded research team from a mysterious, rapidly-growing alien plant.'',
             analysis_characters = withCharacterIds (randomUUID env) mockAnalysis_characters,
             analysis_scenes =
               withSceneIds (randomUUID env) (length mockAnalysis_characters) mockAnalysis_scenes\<rparr>
      else if includesStr (toLowerCase script') ''error'' then
        Inl (JsError ''Script contains invalid content.'')
      else
        (case generateContent_analysis env script' of
           Inl e \<Rightarrow> Inl e
         | Inr parsedJson \<Rightarrow>
             (case (json_characters parsedJson, json_scenes parsedJson) of
                (Some cs, Some scs) \<Rightarrow>
                  if length cs = 0 \<or> length scs = 0 then
                    Inl (JsError ''AI could not identify characters and scenes. Please check the script format.'')
                  else
                    Inr \<lparr>analysis_title = orDefault (json_title parsedJson) ''Untitled Movie'',
                         analysis_logline = orDefault (json_logline parsedJson)
                           ''A thrilling adventure unfolds based on the provided script.'',
                         analysis_characters = withCharacterIds (randomUUID env) cs,
                         analysis_scenes = withSceneIds (randomUUID env) (length cs) scs\<rparr>
              | _ \<Rightarrow>
                  Inl (JsError ''AI could not identify characters and scenes. Please check the script format.''))))"

section \<open>The stage sequencer (App component)\<close>

fun splitStr :: "char \<Rightarrow> string \<Rightarrow> string list" where
  "splitStr sep [] = [[]]"
| "splitStr sep (c # cs) =
     (let r = splitStr sep cs in if c = sep then [] # r else (c # hd r) # tl r)"

text \<open>
  \<open>fileToImagePart\<close>: the promise resolves with the second piece of the data URL split
  at its commas (\<open>undefined\<close> when there is no comma), and rejects with the reader's error
  event, which is not an \<open>Error\<close>.
\<close>

definition fileToImagePart :: "Env \<Rightarrow> File \<Rightarrow> js_exn + ImagePart" where
  "fileToImagePart env file =
     (case readAsDataURL env file of
        None \<Rightarrow> Inl NotAnError
      | Some result \<Rightarrow>
          let pieces = splitStr CHR '','' result
          in Inr \<lparr>inline_data = (if 1 < length pieces then Some (pieces ! 1) else None),
                  mimeType = file_type file\<rparr>)"

fun getStageFriendlyName :: "ProcessingStage \<Rightarrow> string" where
  "getStageFriendlyName ANALYZING_SCRIPT = ''Script Analysis''"
| "getStageFriendlyName CASTING_VOICE_ACTORS = ''Voice Actor Casting''"
| "getStageFriendlyName GENERATING_VOICE_CLIPS = ''Voice Clip Generation''"
| "getStageFriendlyName ANALYZING_STYLE = ''Visual Style Analysis''"
| "getStageFriendlyName GENERATING_CHARACTERS = ''Character Generation''"
| "getStageFriendlyName GENERATING_STORYBOARD = ''Storyboard Generation''"
| "getStageFriendlyName RENDERING_VIDEO = ''Video Rendering''"

text \<open>\<open>err instanceof Error ? err.message : fallback\<close>.\<close>

definition messageOf :: "js_exn \<Rightarrow> string \<Rightarrow> string" where
  "messageOf err fallback = (case err of JsError m \<Rightarrow> m | NotAnError \<Rightarrow> fallback)"

text \<open>
  The \<open>catch\<close> block shared by \<open>generatePreProductionAssets\<close> and \<open>handleRenderVideo\<close>.
  The stage it names is the one its closure captured.
\<close>

definition reportFailure :: "ProcessingStage \<Rightarrow> js_exn \<Rightarrow> App \<Rightarrow> App" where
  "reportFailure capturedStage err s =
     (let friendlyStageName = getStageFriendlyName capturedStage;
          errorMessage = messageOf err ''An unknown error occurred.''
      in addLog (''Error: '' @ errorMessage)
           (s\<lparr>error := Some (''Failure during '' @ friendlyStageName @ ''. Details: ''
                              @ errorMessage),
              appState := ERROR\<rparr>))"

text \<open>
  \<open>imageFile || (videoFile && videoFile.type.startsWith('image/')) ? videoFile : imageFile\<close>:
  the conditional operator binds weaker than \<open>||\<close>, so the whole disjunction is its
  condition.  An optional file is truthy when it is present.
\<close>

definition truthy :: "'a option \<Rightarrow> bool" where
  "truthy x = (case x of None \<Rightarrow> False | Some v \<Rightarrow> True)"

definition referenceFileOf :: "File option \<Rightarrow> File option \<Rightarrow> File option" where
  "referenceFileOf imageFile videoFile =
     (if truthy imageFile
         \<or> (case videoFile of None \<Rightarrow> False | Some v \<Rightarrow> startsWith (file_type v) ''image/'')
      then videoFile else imageFile)"

text \<open>
  \<open>generatePreProductionAssets\<close> is one \<open>try\<close> block; it is cut here at its stages.
  A stage that can let an exception escape returns a sum whose \<open>Inl\<close> carries the thrown
  value and the state reached when it was thrown.
\<close>

definition stage_start :: "Env \<Rightarrow> bool \<Rightarrow> App \<Rightarrow> App" where
  "stage_start env isHighQuality s =
     (let s1 = addLog ''Starting movie generation...'' s;
          s2 = (if IS_DEMO_MODE env
                then addLog ''Running in Demo Mode. API calls will be bypassed.'' s1 else s1)
      in if isHighQuality
         then addLog ''High quality mode enabled. Visual generation may take longer.'' s2
         else s2)"

definition stage_analysis ::
  "Env \<Rightarrow> string \<Rightarrow> File option \<Rightarrow> File option \<Rightarrow> App
   \<Rightarrow> (js_exn \<times> App) + ((ScriptAnalysis \<times> ImagePart option \<times> string option) \<times> App)" where
  "stage_analysis env script' imageFile videoFile s =
     (let referenceFile = referenceFileOf imageFile videoFile;
          s1 = (if referenceFile \<noteq> None then s\<lparr>hasVisualReference := True\<rparr> else s);
          s2 = addLog ''Analyzing script with AI...'' (s1\<lparr>processingStage := ANALYZING_SCRIPT\<rparr>)
      in case analyzeScript env script' of
           Inl e \<Rightarrow> Inl (e, s2)
         | Inr analysis \<Rightarrow>
             (case referenceFile of
                Some file \<Rightarrow>
                  let s3 = addLog ''Processing visual reference...''
                             (s2\<lparr>processingStage := ANALYZING_STYLE\<rparr>)
                  in (case fileToImagePart env file of
                        Inl e \<Rightarrow> Inl (e, s3)
                      | Inr part \<Rightarrow>
                          (case analyzeImageStyle env part of
                             Inl e \<Rightarrow> Inl (e, s3)
                           | Inr style \<Rightarrow>
                               Inr ((analysis, Some part, Some style),
                                    addLog (''Visual style identified: \"'' @ style @ ''\"'') s3)))
              | None \<Rightarrow>
                  Inr ((analysis, None, None),
                       if videoFile \<noteq> None
                       then addLog ''Video style analysis is not yet supported. The video file will be ignored.'' s2
                       else s2)))"

definition stage_document ::
  "Env \<Rightarrow> ScriptAnalysis \<Rightarrow> string \<Rightarrow> string \<Rightarrow> ImagePart option \<Rightarrow> string option
   \<Rightarrow> QualityMode \<Rightarrow> App \<Rightarrow> Movie \<times> App" where
  "stage_document env analysis script' musicStyle' part style quality' s =
     (let movie = \<lparr>title = analysis_title analysis, logline = analysis_logline analysis,
                   script = script', characters = analysis_characters analysis,
                   scenes = analysis_scenes analysis, videoUrl = '''',
                   musicStyle = Some musicStyle', inspirationImagePart = part,
                   stylePrompt = style, quality = quality'\<rparr>;
          s1 = addLog ''Script analysis complete.'' (s\<lparr>movieData := Some movie\<rparr>);
          s2 = addLog (''Music style selected: \"'' @ musicStyle' @ ''\".'') s1;
          s3 = addLog ''Consulting AI Story Co-writer (inspired by NotebookLM)...'' s2;
          suggestions = generateSceneSuggestions env (logline movie) (scenes movie)
      in if length suggestions > 0
         then (movie, addLog (''AI has proposed '' @ decimal (length suggestions)
                               @ '' new scene idea(s) for your review.'')
                        (s3\<lparr>sceneSuggestions := suggestions\<rparr>))
         else (movie, addLog ''Story structure is solid. No new scenes suggested.'' s3))"

definition stage_casting :: "Env \<Rightarrow> Movie \<Rightarrow> App \<Rightarrow> Movie \<times> App" where
  "stage_casting env movie s =
     (let s1 = addLog ''Casting fictional voice actors...''
                 (s\<lparr>processingStage := CASTING_VOICE_ACTORS\<rparr>);
          voiceCasting = matchVoiceActors env (characters movie)
      in if length voiceCasting > 0 then
           let charactersWithActors =
                 map (\<lambda>c. case map_of voiceCasting (char_name c) of
                            Some actor \<Rightarrow> c\<lparr>voiceActor := Some actor\<rparr>
                          | None \<Rightarrow> c)
                   (characters movie);
               s2 = foldl (\<lambda>st c. case map_of voiceCasting (char_name c) of
                                     Some actor \<Rightarrow>
                                       addLog (''Cast '' @ actor_name actor @ '' as ''
                                                @ char_name c @ ''.'') st
                                   | None \<Rightarrow> st)
                      s1 (characters movie);
               movie' = movie\<lparr>characters := charactersWithActors\<rparr>
           in (movie', addLog ''Voice casting complete.'' (s2\<lparr>movieData := Some movie'\<rparr>))
         else
           (movie, addLog ''Voice casting was skipped or failed. Continuing without it.'' s1))"

text \<open>
  \<open>Promise.all\<close> over the calls of one stage.  The calls are issued in list order; the
  schedule modelled lets the calls that succeed settle first, in list order, and the
  combined promise then rejects with the first rejection of the list.
\<close>

fun promiseAll :: "(js_exn + 'a) list \<Rightarrow> js_exn + 'a list" where
  "promiseAll [] = Inr []"
| "promiseAll (Inl e # rs) = Inl e"
| "promiseAll (Inr v # rs) = (case promiseAll rs of Inl e \<Rightarrow> Inl e | Inr vs \<Rightarrow> Inr (v # vs))"

definition voiceLineCall :: "Env \<Rightarrow> Character \<times> nat \<Rightarrow> js_exn + Character" where
  "voiceLineCall env = (\<lambda>(c, k).
     case generateCharacterVoiceLine env k c of
       Inl e \<Rightarrow> Inl e
     | Inr line \<Rightarrow> Inr (c\<lparr>voiceLine := Some line\<rparr>))"

definition stage_voiceLines :: "Env \<Rightarrow> Movie \<Rightarrow> App \<Rightarrow> (js_exn \<times> App) + (Movie \<times> App)" where
  "stage_voiceLines env movie s =
     (let s1 = addLog ''Generating character voice lines...''
                 (s\<lparr>processingStage := GENERATING_VOICE_CLIPS\<rparr>);
          charactersToGetLinesFor = filter (\<lambda>c. voiceActor c \<noteq> None) (characters movie)
      in if length charactersToGetLinesFor > 0 then
           let settlements =
                 map (voiceLineCall env)
                   (zip charactersToGetLinesFor [0 ..< length charactersToGetLinesFor]);
               s2 = foldl (\<lambda>st r. case r of
                                     Inr c \<Rightarrow>
                                       addLog (''Generated voice line for '' @ char_name c @ ''.'') st
                                   | Inl e \<Rightarrow> st)
                      s1 settlements
           in (case promiseAll settlements of
                 Inl e \<Rightarrow> Inl (e, s2)
               | Inr charactersWithLines \<Rightarrow>
                   let finalCharacters =
                         map (\<lambda>origChar.
                                case find (\<lambda>updatedChar. char_id updatedChar = char_id origChar)
                                       charactersWithLines of
                                  Some updatedChar \<Rightarrow> updatedChar
                                | None \<Rightarrow> origChar)
                           (characters movie);
                       movie' = movie\<lparr>characters := finalCharacters\<rparr>
                   in Inr (movie', addLog ''All voice lines generated.''
                                     (s2\<lparr>movieData := Some movie'\<rparr>)))
         else
           Inr (movie, addLog ''No voice actors cast, skipping voice line generation.'' s1))"

text \<open>
  The two sequential loops.  \<open>k\<close> is the number of calls already made; the array
  filled by \<open>push\<close> is an accumulator.
\<close>

fun characterVisualsLoop ::
  "Env \<Rightarrow> string option \<Rightarrow> QualityMode \<Rightarrow> nat \<Rightarrow> Character list \<Rightarrow> Character list \<Rightarrow> App
   \<Rightarrow> Character list \<times> App" where
  "characterVisualsLoop env style quality' k [] charactersWithImages s =
     (charactersWithImages, s)"
| "characterVisualsLoop env style quality' k (c # cs) charactersWithImages s =
     (case generateCharacterImage env k (char_description c) style quality' of
        Inr url \<Rightarrow>
          characterVisualsLoop env style quality' (Suc k) cs
            (charactersWithImages @ [c\<lparr>imageUrl := url\<rparr>])
            (addLog (''Visual for character '' @ char_name c @ '' created.'') s)
      | Inl err \<Rightarrow>
          characterVisualsLoop env style quality' (Suc k) cs
            (charactersWithImages @ [c])
            (addLog (''Failed to generate visual for '' @ char_name c @ ''. Error: ''
                      @ messageOf err ''Unknown error'') s))"

definition stage_characterVisuals ::
  "Env \<Rightarrow> string option \<Rightarrow> QualityMode \<Rightarrow> Movie \<Rightarrow> App \<Rightarrow> Movie \<times> App" where
  "stage_characterVisuals env style quality' movie s =
     (let s1 = addLog ''Generating character visuals (one at a time to respect API limits)...''
                 (s\<lparr>processingStage := GENERATING_CHARACTERS\<rparr>);
          (charactersWithImages, s2) =
             characterVisualsLoop env style quality' 0 (characters movie) [] s1;
          movie' = movie\<lparr>characters := charactersWithImages\<rparr>
      in (movie', addLog ''All character visuals generated.'' (s2\<lparr>movieData := Some movie'\<rparr>)))"

fun storyboardLoop ::
  "Env \<Rightarrow> string option \<Rightarrow> QualityMode \<Rightarrow> nat \<Rightarrow> Scene list \<Rightarrow> Scene list \<Rightarrow> App
   \<Rightarrow> Scene list \<times> App" where
  "storyboardLoop env style quality' k [] scenesWithVideos s = (scenesWithVideos, s)"
| "storyboardLoop env style quality' k (scene # rest) scenesWithVideos s =
     (case generateStoryboardVideo env k (scene_description scene) style quality' of
        Inr url \<Rightarrow>
          storyboardLoop env style quality' (Suc k) rest
            (scenesWithVideos @ [scene\<lparr>storyboardVideoUrl := url\<rparr>])
            (addLog (''Animated storyboard for Scene '' @ numberToString (sceneNumber scene)
                      @ '' created.'') s)
      | Inl err \<Rightarrow>
          storyboardLoop env style quality' (Suc k) rest
            (scenesWithVideos @ [scene])
            (addLog (''Failed to generate storyboard for Scene ''
                      @ numberToString (sceneNumber scene) @ ''. Error: ''
                      @ messageOf err ''Unknown error'') s))"

definition stage_storyboard ::
  "Env \<Rightarrow> string option \<Rightarrow> QualityMode \<Rightarrow> Movie \<Rightarrow> App \<Rightarrow> Movie \<times> App" where
  "stage_storyboard env style quality' movie s =
     (let s1 = addLog ''Generating animated storyboard (one scene at a time to respect API limits)...''
                 (s\<lparr>processingStage := GENERATING_STORYBOARD\<rparr>);
          (scenesWithVideos, s2) = storyboardLoop env style quality' 0 (scenes movie) [] s1;
          movie' = movie\<lparr>scenes := scenesWithVideos\<rparr>
      in (movie', addLog ''Storyboard generation complete.'' (s2\<lparr>movieData := Some movie'\<rparr>)))"

text \<open>The body of the \<open>try\<close> block, from its first statement to \<open>setAppState(REVIEW)\<close>.\<close>

definition generatePreProductionAssets_try ::
  "Env \<Rightarrow> string \<Rightarrow> File option \<Rightarrow> File option \<Rightarrow> bool \<Rightarrow> string \<Rightarrow> App \<Rightarrow> settled" where
  "generatePreProductionAssets_try env script' imageFile videoFile isHighQuality musicStyle' s =
     (let quality' = (if isHighQuality then high else standard);
          s0 = stage_start env isHighQuality s
      in case stage_analysis env script' imageFile videoFile s0 of
           Inl thrown \<Rightarrow> Inl thrown
         | Inr ((analysis, part, style), s1) \<Rightarrow>
             let (movie1, s2) = stage_document env analysis script' musicStyle' part style quality' s1;
                 (movie2, s3) = stage_casting env movie1 s2
             in (case stage_voiceLines env movie2 s3 of
                   Inl thrown \<Rightarrow> Inl thrown
                 | Inr (movie3, s4) \<Rightarrow>
                     let (movie4, s5) = stage_characterVisuals env style quality' movie3 s4;
                         (movie5, s6) = stage_storyboard env style quality' movie4 s5
                     in Inr ((addLog ''Pre-production complete. Ready to render the final movie.'' s6)
                              \<lparr>appState := REVIEW\<rparr>)))"

text \<open>
  \<open>generatePreProductionAssets\<close>: the \<open>try\<close> block and its \<open>catch\<close>.  \<open>capturedStage\<close> is
  the value of \<open>processingStage\<close> in the closure (the callback is re-created with
  \<open>processingStage\<close> among its dependencies, and reads it only in the \<open>catch\<close> block).
\<close>

definition generatePreProductionAssets ::
  "Env \<Rightarrow> ProcessingStage \<Rightarrow> string \<Rightarrow> File option \<Rightarrow> File option \<Rightarrow> bool \<Rightarrow> string \<Rightarrow> App
   \<Rightarrow> settled" where
  "generatePreProductionAssets env capturedStage script' imageFile videoFile isHighQuality
       musicStyle' s =
     (case generatePreProductionAssets_try env script' imageFile videoFile isHighQuality
             musicStyle' s of
        Inr s' \<Rightarrow> Inr s'
      | Inl (err, s') \<Rightarrow> Inr (reportFailure capturedStage err s'))"

text \<open>
  \<open>handleGenerate\<close> resets the cells and starts the run without awaiting it; the state
  returned is the one the run leaves when it settles.
\<close>

definition handleGenerate ::
  "Env \<Rightarrow> ProcessingStage \<Rightarrow> string \<Rightarrow> File option \<Rightarrow> File option \<Rightarrow> bool \<Rightarrow> string \<Rightarrow> App
   \<Rightarrow> settled" where
  "handleGenerate env capturedStage script' imageFile videoFile isHighQuality musicStyle' s =
     generatePreProductionAssets env capturedStage script' imageFile videoFile isHighQuality
       musicStyle'
       (s\<lparr>appState := PROCESSING, processingStage := ANALYZING_SCRIPT, movieData := None,
          processingLog := [], error := None, sceneSuggestions := []\<rparr>)"

definition handleReset :: "App \<Rightarrow> App" where
  "handleReset s =
     s\<lparr>appState := SCRIPT_UPLOAD, movieData := None, processingLog := [], error := None,
       sceneSuggestions := []\<rparr>"

definition handleRenderVideo :: "Env \<Rightarrow> Movie option \<Rightarrow> ProcessingStage \<Rightarrow> App \<Rightarrow> settled" where
  "handleRenderVideo env md capturedStage s =
     (case md of
        None \<Rightarrow>
          Inr (s\<lparr>error := Some ''Movie data is missing, cannot render video.'',
                 appState := ERROR\<rparr>)
      | Some m \<Rightarrow>
          let s1 = addLog ''Starting final video render...''
                     (s\<lparr>processingStage := RENDERING_VIDEO, appState := PROCESSING\<rparr>);
              (progress, outcome) = renderInVideoVideo env m;
              s2 = foldl (\<lambda>st message. addLog message st) s1 progress
          in (case outcome of
                Inr url \<Rightarrow>
                  Inr (addLog ''Movie render complete!''
                         (s2\<lparr>movieData := map_option (\<lambda>prev. prev\<lparr>videoUrl := url\<rparr>) (movieData s2),
                             appState := COMPLETE\<rparr>))
              | Inl err \<Rightarrow> Inr (reportFailure capturedStage err s2)))"

text \<open>
  A user action reaches the handler of the latest render, whose closures hold that
  render's cell values: the captured values are those of the state the action starts in.
\<close>

definition onGenerate ::
  "Env \<Rightarrow> string \<Rightarrow> File option \<Rightarrow> File option \<Rightarrow> bool \<Rightarrow> string \<Rightarrow> App \<Rightarrow> settled" where
  "onGenerate env script' imageFile videoFile isHighQuality musicStyle' s =
     handleGenerate env (processingStage s) script' imageFile videoFile isHighQuality musicStyle' s"

definition onRenderVideo :: "Env \<Rightarrow> App \<Rightarrow> settled" where
  "onRenderVideo env s = handleRenderVideo env (movieData s) (processingStage s) s"

section \<open>Per-item regeneration\<close>

text \<open>
  Each handler is cut at its \<open>await\<close>: the part that runs at once, and the part that runs
  when the collaborator has settled with \<open>outcome\<close>.  \<open>md\<close> is the document captured by the
  closure.  The whole handler, with nothing else writing in between, is their composition.
\<close>

definition handleRegenerateCharacter_sync :: "Movie option \<Rightarrow> string \<Rightarrow> App \<Rightarrow> App" where
  "handleRegenerateCharacter_sync md characterId s =
     (case md of
        None \<Rightarrow> s
      | Some m \<Rightarrow>
          (case find (\<lambda>c. char_id c = characterId) (characters m) of
             None \<Rightarrow> s
           | Some originalCharacter \<Rightarrow>
               handleUpdateCharacterImage characterId ''''
                 (addLog (''Regenerating visual for character '' @ char_name originalCharacter
                           @ ''...'') s)))"

definition handleRegenerateCharacter_settle ::
  "Movie option \<Rightarrow> string \<Rightarrow> js_exn + string \<Rightarrow> App \<Rightarrow> settled" where
  "handleRegenerateCharacter_settle md characterId outcome s =
     (case md of
        None \<Rightarrow> Inr s
      | Some m \<Rightarrow>
          (case find (\<lambda>c. char_id c = characterId) (characters m) of
             None \<Rightarrow> Inr s
           | Some originalCharacter \<Rightarrow>
               (case outcome of
                  Inr newImageUrl \<Rightarrow> Inr (handleUpdateCharacterImage characterId newImageUrl s)
                | Inl err \<Rightarrow>
                    Inr (handleUpdateCharacterImage characterId (imageUrl originalCharacter)
                           (addLog (''Failed to regenerate visual for ''
                                     @ char_name originalCharacter @ ''. Restoring original.'') s)))))"

definition handleRegenerateCharacter ::
  "(string \<Rightarrow> string option \<Rightarrow> QualityMode \<Rightarrow> js_exn + string) \<Rightarrow> Movie option \<Rightarrow> string \<Rightarrow> App
   \<Rightarrow> settled" where
  "handleRegenerateCharacter generate md characterId s =
     (case md of
        None \<Rightarrow> Inr s
      | Some m \<Rightarrow>
          (case find (\<lambda>c. char_id c = characterId) (characters m) of
             None \<Rightarrow> Inr s
           | Some originalCharacter \<Rightarrow>
               handleRegenerateCharacter_settle md characterId
                 (generate (char_description originalCharacter) (stylePrompt m) (quality m))
                 (handleRegenerateCharacter_sync md characterId s)))"

definition handleRegenerateScene_sync :: "Movie option \<Rightarrow> string \<Rightarrow> App \<Rightarrow> App" where
  "handleRegenerateScene_sync md sceneId s =
     (case md of
        None \<Rightarrow> s
      | Some m \<Rightarrow>
          (case find (\<lambda>sc. scene_id sc = sceneId) (scenes m) of
             None \<Rightarrow> s
           | Some originalScene \<Rightarrow>
               handleUpdateSceneVideo sceneId ''''
                 (addLog (''Regenerating animated storyboard for Scene ''
                           @ numberToString (sceneNumber originalScene) @ ''...'') s)))"

definition handleRegenerateScene_settle ::
  "Movie option \<Rightarrow> string \<Rightarrow> js_exn + string \<Rightarrow> App \<Rightarrow> settled" where
  "handleRegenerateScene_settle md sceneId outcome s =
     (case md of
        None \<Rightarrow> Inr s
      | Some m \<Rightarrow>
          (case find (\<lambda>sc. scene_id sc = sceneId) (scenes m) of
             None \<Rightarrow> Inr s
           | Some originalScene \<Rightarrow>
               (case outcome of
                  Inr newVideoUrl \<Rightarrow> Inr (handleUpdateSceneVideo sceneId newVideoUrl s)
                | Inl err \<Rightarrow>
                    Inr (handleUpdateSceneVideo sceneId (storyboardVideoUrl originalScene)
                           (addLog (''Failed to regenerate storyboard for Scene ''
                                     @ numberToString (sceneNumber originalScene)
                                     @ ''. Restoring original.'') s)))))"

text \<open>
  Regenerating a voice line writes nothing before the call: its first statement after the
  lookup is the log line, and its \<open>catch\<close> block has nothing to restore.
\<close>

definition handleRegenerateCharacterVoiceLine_sync :: "Movie option \<Rightarrow> string \<Rightarrow> App \<Rightarrow> App" where
  "handleRegenerateCharacterVoiceLine_sync md characterId s =
     (case md of
        None \<Rightarrow> s
      | Some m \<Rightarrow>
          (case find (\<lambda>c. char_id c = characterId) (characters m) of
             None \<Rightarrow> s
           | Some character \<Rightarrow>
               addLog (''Regenerating voice line for '' @ char_name character @ ''...'') s))"

definition handleRegenerateCharacterVoiceLine_settle ::
  "Movie option \<Rightarrow> string \<Rightarrow> js_exn + string \<Rightarrow> App \<Rightarrow> settled" where
  "handleRegenerateCharacterVoiceLine_settle md characterId outcome s =
     (case md of
        None \<Rightarrow> Inr s
      | Some m \<Rightarrow>
          (case find (\<lambda>c. char_id c = characterId) (characters m) of
             None \<Rightarrow> Inr s
           | Some character \<Rightarrow>
               (case outcome of
                  Inr newVoiceLine \<Rightarrow>
                    Inr (handleUpdateCharacterVoiceLine characterId newVoiceLine s)
                | Inl err \<Rightarrow>
                    Inr (addLog (''Failed to regenerate voice line for '' @ char_name character
                                  @ ''. Error: '' @ messageOf err ''An unknown error occurred.'')
                           s))))"

section \<open>Accepting a scene suggestion\<close>

text \<open>
  \<open>Array.prototype.splice(start, 0, item)\<close>: a negative start counts from the end, a
  start beyond the length is the length.
\<close>

definition splice_insert :: "'a list \<Rightarrow> int \<Rightarrow> 'a \<Rightarrow> 'a list" where
  "splice_insert xs start x =
     (let n = int (length xs);
          k = nat (if start < 0 then max (n + start) 0 else min start n)
      in take k xs @ [x] @ drop k xs)"

definition insertionIndex :: "Scene list \<Rightarrow> SceneSuggestion \<Rightarrow> int" where
  "insertionIndex scs suggestion =
     max 0 (min (int (length scs)) (suggestedLocation suggestion - 1))"

definition renumberScenes :: "Scene list \<Rightarrow> Scene list" where
  "renumberScenes newScenes =
     map (\<lambda>(scene, index). scene\<lparr>sceneNumber := int index + 1\<rparr>)
       (zip newScenes [0 ..< length newScenes])"

definition newSceneOf :: "string \<Rightarrow> SceneSuggestion \<Rightarrow> Scene" where
  "newSceneOf uuid suggestion =
     \<lparr>scene_id = uuid, sceneNumber = suggestedLocation suggestion,
      scene_description = sceneDescription suggestion, storyboardVideoUrl = ''''\<rparr>"

text \<open>
  The part of \<open>handleAcceptSuggestion\<close> that runs before its first \<open>await\<close>.
  \<open>md\<close> is the document captured by the closure, \<open>uuid\<close> what \<open>crypto.randomUUID()\<close>
  returns.  The new scene list is computed from the captured document and written into
  the current one.
\<close>

definition handleAcceptSuggestion_sync ::
  "Movie option \<Rightarrow> string \<Rightarrow> SceneSuggestion \<Rightarrow> App \<Rightarrow> App" where
  "handleAcceptSuggestion_sync md uuid suggestion s =
     (case md of
        None \<Rightarrow> s
      | Some m \<Rightarrow>
          let s1 = addLog (''Accepted suggestion: \"'' @ suggestion_title suggestion
                            @ ''\". Integrating into storyboard...'') s;
              s2 = s1\<lparr>sceneSuggestions :=
                        filter (\<lambda>x. suggestion_id x \<noteq> suggestion_id suggestion)
                          (sceneSuggestions s1)\<rparr>;
              newScene = newSceneOf uuid suggestion;
              newScenes = splice_insert (scenes m) (insertionIndex (scenes m) suggestion) newScene;
              renumberedScenes = renumberScenes newScenes
          in s2\<lparr>movieData :=
                  (case movieData s2 of
                     None \<Rightarrow> None
                   | Some prev \<Rightarrow> Some (prev\<lparr>scenes := renumberedScenes\<rparr>))\<rparr>)"

text \<open>
  The rest of \<open>handleAcceptSuggestion\<close>: what happens once the storyboard call for the
  new scene has settled with \<open>outcome\<close>.
\<close>

definition handleAcceptSuggestion_settle ::
  "Movie option \<Rightarrow> string \<Rightarrow> SceneSuggestion \<Rightarrow> js_exn + string \<Rightarrow> App \<Rightarrow> settled" where
  "handleAcceptSuggestion_settle md uuid suggestion outcome s =
     (case md of
        None \<Rightarrow> Inr s
      | Some m \<Rightarrow>
          (case outcome of
             Inr url \<Rightarrow>
               Inr (handleUpdateSceneVideo uuid url
                      (addLog (''Generated new storyboard for accepted scene: \"''
                                @ suggestion_title suggestion @ ''\".'') s))
           | Inl err \<Rightarrow>
               Inr (addLog ''Failed to generate storyboard for new scene. Please try regenerating it manually.'' s)))"

text \<open>The spec's clamp, written from its words, to compare with \<open>insertionIndex\<close>.\<close>

definition clamp_spec :: "int \<Rightarrow> int \<Rightarrow> int \<Rightarrow> int" where
  "clamp_spec x lo hi = (if x < lo then lo else if hi < x then hi else x)"


section \<open>Concrete environments and documents\<close>

text \<open>
  \<open>liveEnv\<close> is a small environment outside demo mode whose services all succeed; single
  services are replaced in it where a failure is examined.  The suggestions and the voice
  actors are those of the services' demo-mode branches.
\<close>

definition suggestionDoubt :: SceneSuggestion where
  "suggestionDoubt =
     \<lparr>suggestion_id = ''suggestion-a'', suggestion_title = ''A Moment of Doubt'',
      reasoning = ''This new scene adds emotional depth to Kael, showing a moment of vulnerability before the final rescue.'',
      sceneDescription = ''INT. STARDUST DRIFTER - COCKPIT - NIGHT. Kael stares at an old, faded photo of a lost loved one.'',
      suggestedLocation = 4\<rparr>"

definition suggestionPlant :: SceneSuggestion where
  "suggestionPlant =
     \<lparr>suggestion_id = ''suggestion-b'', suggestion_title = ''The Plant's True Nature'',
      reasoning = ''This twist raises the stakes by revealing the mission was more than a simple rescue, creating a moral dilemma.'',
      sceneDescription = ''CLOSE UP - Zora's datapad reveals the alien plant has incredible terraforming capabilities.'',
      suggestedLocation = 3\<rparr>"

definition demoSuggestions :: "SceneSuggestion list" where
  "demoSuggestions = [suggestionDoubt, suggestionPlant]"

definition mockActors :: "VoiceActor list" where
  "mockActors =
     [\<lparr>actor_name = ''Jake 'Gravel' Johnson'', vocalStyle = ''Deep and raspy''\<rparr>,
      \<lparr>actor_name = ''Elara Vance'', vocalStyle = ''Clear and confident''\<rparr>,
      \<lparr>actor_name = ''Chip Unit 734'', vocalStyle = ''Modulated and witty''\<rparr>,
      \<lparr>actor_name = ''General Xylo'', vocalStyle = ''Commanding and stern''\<rparr>]"

definition liveEnv :: Env where
  "liveEnv =
     \<lparr>IS_DEMO_MODE = False,
      randomUUID = (\<lambda>k. ''uuid-'' @ decimal k),
      generateContent_analysis =
        (\<lambda>_. Inr \<lparr>json_title = Some ''Two'', json_logline = None,
                   json_characters = Some [(''Ann'', ''a pilot''), (''Bob'', ''a droid'')],
                   json_scenes = Some [(1, ''Bridge''), (2, ''Jungle'')]\<rparr>),
      readAsDataURL = (\<lambda>f. Some (''data:'' @ file_type f @ '';base64,AAAA'')),
      analyzeImageStyle = (\<lambda>_. Inr ''noir''),
      generateSceneSuggestions = (\<lambda>_ _. []),
      matchVoiceActors = (\<lambda>cs. map (\<lambda>c. (char_name c, mockActors ! 0)) cs),
      generateCharacterVoiceLine = (\<lambda>_ c. Inr (''I am '' @ char_name c)),
      generateCharacterImage = (\<lambda>k _ _ _. Inr (''image-'' @ decimal k)),
      generateStoryboardVideo = (\<lambda>k _ _ _. Inr (''video-'' @ decimal k)),
      renderInVideoVideo = (\<lambda>_. ([], Inr ''final-video''))\<rparr>"

text \<open>The four scenes of the demo analysis, as a document under review.\<close>

definition fourScenes :: "Scene list" where
  "fourScenes = withSceneIds (\<lambda>k. ''uuid-'' @ decimal k) 3 mockAnalysis_scenes"

definition twoCharacters :: "Character list" where
  "twoCharacters =
     [\<lparr>char_id = ''uuid-0'', char_name = ''Ann'', char_description = ''a pilot'',
       imageUrl = ''image-0'', voiceActor = Some (mockActors ! 0), voiceLine = Some ''I am Ann''\<rparr>,
      \<lparr>char_id = ''uuid-1'', char_name = ''Bob'', char_description = ''a droid'',
       imageUrl = ''image-1'', voiceActor = None, voiceLine = None\<rparr>]"

definition reviewMovie :: Movie where
  "reviewMovie =
     \<lparr>title = ''Galactic Rescue (Demo)'', logline = ''A rescue.'', script = ''INT. BRIDGE'',
      characters = twoCharacters, scenes = fourScenes, videoUrl = '''',
      musicStyle = Some ''Cinematic'', inspirationImagePart = None, stylePrompt = None,
      quality = standard\<rparr>"

definition reviewApp :: App where
  "reviewApp =
     initialApp\<lparr>appState := REVIEW, movieData := Some reviewMovie,
                processingStage := GENERATING_STORYBOARD, sceneSuggestions := demoSuggestions\<rparr>"

text \<open>A document as it stands between casting and the voice-line stage.\<close>

definition draftCharacters :: "Character list" where
  "draftCharacters =
     [\<lparr>char_id = ''uuid-0'', char_name = ''Ann'', char_description = ''a pilot'',
       imageUrl = '''', voiceActor = Some (mockActors ! 0), voiceLine = None\<rparr>,
      \<lparr>char_id = ''uuid-1'', char_name = ''Bob'', char_description = ''a droid'',
       imageUrl = '''', voiceActor = None, voiceLine = None\<rparr>]"

definition draftMovie :: Movie where
  "draftMovie = reviewMovie\<lparr>characters := draftCharacters\<rparr>"

definition draftApp :: App where
  "draftApp =
     initialApp\<lparr>appState := PROCESSING, movieData := Some draftMovie,
                processingStage := CASTING_VOICE_ACTORS\<rparr>"

text \<open>Environments in which the first call of one per-item service rejects.\<close>

definition flakyImageEnv :: Env where
  "flakyImageEnv =
     liveEnv\<lparr>generateCharacterImage :=
       (\<lambda>k d p q. if k = 0 then Inl (JsError ''429'') else Inr ''image-b'')\<rparr>"

definition flakyVoiceEnv :: Env where
  "flakyVoiceEnv =
     liveEnv\<lparr>generateCharacterVoiceLine :=
       (\<lambda>k c. if k = 0 then Inl (JsError ''503'') else Inr (''I am '' @ char_name c))\<rparr>"

definition pngFile :: File where
  "pngFile = \<lparr>file_type = ''image/png'', file_name = ''reference.png''\<rparr>"

definition mp4File :: File where
  "mp4File = \<lparr>file_type = ''video/mp4'', file_name = ''reference.mp4''\<rparr>"

text \<open>
  One user action after another: the second starts in the state the first has left.
\<close>

definition andThen :: "settled \<Rightarrow> (App \<Rightarrow> settled) \<Rightarrow> settled" where
  "andThen r next_action = (case r of Inl thrown \<Rightarrow> Inl thrown | Inr s \<Rightarrow> next_action s)"

text \<open>
  A session outside demo mode: a first run that reaches review, the final render, a
  reset, and a second run whose script the analyzer rejects.
\<close>

definition firstRunRendered :: settled where
  "firstRunRendered =
     andThen (onGenerate liveEnv ''INT. BRIDGE'' None None False ''Cinematic'' initialApp)
       (onRenderVideo liveEnv)"

definition secondRunRejected :: settled where
  "secondRunRejected =
     andThen firstRunRendered
       (\<lambda>s. onGenerate liveEnv ''A Terror on the Bridge'' None None False ''Cinematic''
              (handleReset s))"

text \<open>An environment in which the casting collaborator casts the first character only.\<close>

definition partialCastEnv :: Env where
  "partialCastEnv = liveEnv\<lparr>matchVoiceActors := (\<lambda>cs. [(''Ann'', mockActors ! 0)])\<rparr>"

section \<open>Evaluation helpers\<close>

lemma decimal_digit: "n < 10 \<Longrightarrow> decimal n = [digitChar n]"
  by (simp add: decimal.simps)

section \<open>Renumbering\<close>

lemma length_renumberScenes: "length (renumberScenes xs) = length xs"
  by (simp add: renumberScenes_def)

lemma nth_renumberScenes:
  "i < length xs \<Longrightarrow> renumberScenes xs ! i = (xs ! i)\<lparr>sceneNumber := int i + 1\<rparr>"
  by (simp add: renumberScenes_def)

lemma length_splice_insert: "length (splice_insert xs k x) = Suc (length xs)"
  by (simp add: splice_insert_def Let_def)

lemma insertionIndex_range:
  "0 \<le> insertionIndex scs sg \<and> insertionIndex scs sg \<le> int (length scs)"
  by (simp add: insertionIndex_def)

lemma splice_insert_in_range:
  "0 \<le> k \<Longrightarrow> k \<le> int (length xs) \<Longrightarrow>
   splice_insert xs k x = take (nat k) xs @ [x] @ drop (nat k) xs"
  by (simp add: splice_insert_def Let_def min_def)

lemma accept_sync_scenes:
  "movieData s = Some prev \<Longrightarrow>
   movieData (handleAcceptSuggestion_sync (Some m) uuid sg s) =
     Some (prev\<lparr>scenes := renumberScenes
             (splice_insert (scenes m) (insertionIndex (scenes m) sg) (newSceneOf uuid sg))\<rparr>)"
  by (simp add: handleAcceptSuggestion_sync_def Let_def addLog_def)

lemma accept_sync_unset:
  "movieData s = None \<Longrightarrow> movieData (handleAcceptSuggestion_sync md uuid sg s) = None"
  by (cases md) (simp_all add: handleAcceptSuggestion_sync_def Let_def addLog_def)

text \<open>
  C1.  After the synchronous part of accepting a suggestion, whenever a document results,
  every scene's number is its 1-based position: \<open>scenes[i].sceneNumber = i + 1\<close> for
  every index \<open>i\<close> of the resulting scene list.
\<close>

theorem accept_suggestion_numbering:
  assumes "movieData (handleAcceptSuggestion_sync (Some m) uuid sg s) = Some m'"
    and "i < length (scenes m')"
  shows "sceneNumber (scenes m' ! i) = int i + 1"
proof (cases "movieData s")
  case None
  with assms(1) show ?thesis by (simp add: accept_sync_unset)
next
  case (Some prev)
  let ?new = "splice_insert (scenes m) (insertionIndex (scenes m) sg) (newSceneOf uuid sg)"
  from Some assms(1) have sc: "scenes m' = renumberScenes ?new"
    by (auto simp: accept_sync_scenes)
  with assms(2) have "i < length ?new" by (simp add: length_renumberScenes)
  then show ?thesis by (simp add: sc nth_renumberScenes)
qed

theorem accept_suggestion_numbering_witness:
  "movieData (handleAcceptSuggestion_sync (Some reviewMovie) ''uuid-new'' suggestionPlant
      reviewApp)
     = Some (the (movieData (handleAcceptSuggestion_sync (Some reviewMovie) ''uuid-new''
                    suggestionPlant reviewApp)))
   \<and> 4 < length (scenes (the (movieData (handleAcceptSuggestion_sync (Some reviewMovie)
                    ''uuid-new'' suggestionPlant reviewApp))))
   \<and> sceneNumber (scenes (the (movieData (handleAcceptSuggestion_sync (Some reviewMovie)
                    ''uuid-new'' suggestionPlant reviewApp))) ! 4) = 5"
proof -
  let ?r = "movieData (handleAcceptSuggestion_sync (Some reviewMovie) ''uuid-new''
              suggestionPlant reviewApp)"
  have a: "?r = Some (the ?r)"
    by (simp add: accept_sync_scenes reviewApp_def)
  have b: "4 < length (scenes (the ?r))"
    by (simp add: accept_sync_scenes reviewApp_def length_renumberScenes length_splice_insert
          reviewMovie_def fourScenes_def withSceneIds_def mockAnalysis_scenes_def)
  from accept_suggestion_numbering [OF a b] a b show ?thesis by simp
qed

section \<open>Position of the inserted scene\<close>

lemma insertionIndex_clamp:
  "insertionIndex scs sg = clamp_spec (suggestedLocation sg - 1) 0 (int (length scs))"
  by (simp add: insertionIndex_def clamp_spec_def max_def min_def)

lemma nth_inserted:
  "k \<le> length xs \<Longrightarrow> (take k xs @ [x] @ drop k xs) ! k = x"
  by (simp add: nth_append)

lemma nth_before_inserted:
  "i < k \<Longrightarrow> k \<le> length xs \<Longrightarrow> (take k xs @ [x] @ drop k xs) ! i = xs ! i"
  by (simp add: nth_append)

lemma nth_after_inserted:
  "k \<le> i \<Longrightarrow> i < length xs \<Longrightarrow> (take k xs @ [x] @ drop k xs) ! Suc i = xs ! i"
  by (simp add: nth_append Suc_diff_le)

text \<open>
  C2.  Accepting a suggestion on the rendered document inserts the new scene at index
  \<open>clamp(suggestedLocation - 1, 0, n)\<close>: the scenes before it keep their place, those from
  it on move one place up, all are renumbered; a position beyond \<open>n\<close> appends, a position
  of at most 1 makes the new scene the first; with four scenes and position 3 the new
  scene is scene 3, the former scene 3 is scene 4, and there are five scenes.
\<close>

theorem accept_suggestion_position:
  assumes cur: "movieData s = Some m"
    and res: "movieData (handleAcceptSuggestion_sync (Some m) uuid sg s) = Some m'"
    and k: "k = nat (clamp_spec (suggestedLocation sg - 1) 0 (int (length (scenes m))))"
  shows "m' = m\<lparr>scenes := scenes m'\<rparr>
    \<and> length (scenes m') = Suc (length (scenes m))
    \<and> k \<le> length (scenes m)
    \<and> scenes m' ! k = (newSceneOf uuid sg)\<lparr>sceneNumber := int k + 1\<rparr>
    \<and> (\<forall>i<k. scenes m' ! i = (scenes m ! i)\<lparr>sceneNumber := int i + 1\<rparr>)
    \<and> (\<forall>i. k \<le> i \<and> i < length (scenes m)
           \<longrightarrow> scenes m' ! Suc i = (scenes m ! i)\<lparr>sceneNumber := int i + 2\<rparr>)
    \<and> (int (length (scenes m)) < suggestedLocation sg \<longrightarrow> k = length (scenes m))
    \<and> (suggestedLocation sg \<le> 1 \<longrightarrow> k = 0)
    \<and> (length (scenes m) = 4 \<and> suggestedLocation sg = 3
           \<longrightarrow> length (scenes m') = 5
             \<and> scenes m' ! 2 = (newSceneOf uuid sg)\<lparr>sceneNumber := 3\<rparr>
             \<and> scenes m' ! 3 = (scenes m ! 2)\<lparr>sceneNumber := 4\<rparr>)"
proof -
  let ?xs = "scenes m"
  let ?new = "take k ?xs @ [newSceneOf uuid sg] @ drop k ?xs"
  have range: "0 \<le> insertionIndex ?xs sg" "insertionIndex ?xs sg \<le> int (length ?xs)"
    using insertionIndex_range by auto
  have kk: "int k = insertionIndex ?xs sg"
    using range by (simp add: k insertionIndex_clamp)
  have kle: "k \<le> length ?xs"
    using range kk by linarith
  have spl: "splice_insert ?xs (insertionIndex ?xs sg) (newSceneOf uuid sg) = ?new"
    using splice_insert_in_range [OF range] kk by (metis nat_int)
  from cur res have m': "m' = m\<lparr>scenes := renumberScenes ?new\<rparr>"
    by (simp add: accept_sync_scenes spl)
  then have sc: "scenes m' = renumberScenes ?new" by simp
  have len: "length ?new = Suc (length ?xs)" using kle by simp
  have c1: "m' = m\<lparr>scenes := scenes m'\<rparr>" using m' by simp
  have c2: "length (scenes m') = Suc (length ?xs)"
    by (simp only: sc length_renumberScenes len)
  have c4: "scenes m' ! k = (newSceneOf uuid sg)\<lparr>sceneNumber := int k + 1\<rparr>"
    using kle by (simp only: sc) (simp add: nth_renumberScenes nth_inserted del: append.simps)
  have c5: "\<forall>i<k. scenes m' ! i = (?xs ! i)\<lparr>sceneNumber := int i + 1\<rparr>"
  proof (intro allI impI)
    fix i assume "i < k"
    then have "i < length ?new" using kle by simp
    then have "scenes m' ! i = (?new ! i)\<lparr>sceneNumber := int i + 1\<rparr>"
      by (simp only: sc nth_renumberScenes)
    then show "scenes m' ! i = (?xs ! i)\<lparr>sceneNumber := int i + 1\<rparr>"
      using \<open>i < k\<close> kle by (simp only: nth_before_inserted)
  qed
  have c6: "\<forall>i. k \<le> i \<and> i < length ?xs
              \<longrightarrow> scenes m' ! Suc i = (?xs ! i)\<lparr>sceneNumber := int i + 2\<rparr>"
  proof (intro allI impI)
    fix i assume h: "k \<le> i \<and> i < length ?xs"
    then have "Suc i < length ?new" using kle by simp
    then have "scenes m' ! Suc i = (?new ! Suc i)\<lparr>sceneNumber := int (Suc i) + 1\<rparr>"
      by (simp only: sc nth_renumberScenes)
    then show "scenes m' ! Suc i = (?xs ! i)\<lparr>sceneNumber := int i + 2\<rparr>"
      using h by (simp add: nth_after_inserted del: append.simps)
  qed
  have c7: "int (length ?xs) < suggestedLocation sg \<longrightarrow> k = length ?xs"
    unfolding k clamp_spec_def by auto
  have c8: "suggestedLocation sg \<le> 1 \<longrightarrow> k = 0"
    unfolding k clamp_spec_def by auto
  have c9: "length ?xs = 4 \<and> suggestedLocation sg = 3
           \<longrightarrow> length (scenes m') = 5
             \<and> scenes m' ! 2 = (newSceneOf uuid sg)\<lparr>sceneNumber := 3\<rparr>
             \<and> scenes m' ! 3 = (?xs ! 2)\<lparr>sceneNumber := 4\<rparr>"
  proof
    assume h: "length ?xs = 4 \<and> suggestedLocation sg = 3"
    then have k2: "k = 2" by (simp add: k clamp_spec_def)
    have "k \<le> 2 \<and> 2 < length ?xs" using h k2 by simp
    with c6 have "scenes m' ! Suc 2 = (?xs ! 2)\<lparr>sceneNumber := int 2 + 2\<rparr>"
      by blast
    then have a: "scenes m' ! 3 = (?xs ! 2)\<lparr>sceneNumber := 4\<rparr>"
      by (simp add: numeral_3_eq_3)
    have b: "scenes m' ! 2 = (newSceneOf uuid sg)\<lparr>sceneNumber := 3\<rparr>"
      using c4 k2 by simp
    from a b c2 h show "length (scenes m') = 5
             \<and> scenes m' ! 2 = (newSceneOf uuid sg)\<lparr>sceneNumber := 3\<rparr>
             \<and> scenes m' ! 3 = (?xs ! 2)\<lparr>sceneNumber := 4\<rparr>" by simp
  qed
  from c1 c2 kle c4 c5 c6 c7 c8 c9 show ?thesis by blast
qed

lemma fourScenes_eval:
  "length fourScenes = 4" "scene_id (fourScenes ! 2) = ''uuid-5''"
  by (simp_all add: fourScenes_def withSceneIds_def mockAnalysis_scenes_def decimal_digit digitChar_def)

theorem accept_suggestion_position_witness:
  "movieData reviewApp = Some reviewMovie
   \<and> length (scenes reviewMovie) = 4 \<and> suggestedLocation suggestionPlant = 3
   \<and> length (scenes (the (movieData (handleAcceptSuggestion_sync (Some reviewMovie)
          ''uuid-new'' suggestionPlant reviewApp)))) = 5
   \<and> scene_id (scenes (the (movieData (handleAcceptSuggestion_sync (Some reviewMovie)
          ''uuid-new'' suggestionPlant reviewApp))) ! 2) = ''uuid-new''
   \<and> sceneNumber (scenes (the (movieData (handleAcceptSuggestion_sync (Some reviewMovie)
          ''uuid-new'' suggestionPlant reviewApp))) ! 2) = 3
   \<and> scene_id (scenes (the (movieData (handleAcceptSuggestion_sync (Some reviewMovie)
          ''uuid-new'' suggestionPlant reviewApp))) ! 3) = ''uuid-5''
   \<and> sceneNumber (scenes (the (movieData (handleAcceptSuggestion_sync (Some reviewMovie)
          ''uuid-new'' suggestionPlant reviewApp))) ! 3) = 4"
proof -
  let ?sg = "suggestionPlant"
  let ?r = "movieData (handleAcceptSuggestion_sync (Some reviewMovie) ''uuid-new'' ?sg reviewApp)"
  have cur: "movieData reviewApp = Some reviewMovie"
    by (simp add: reviewApp_def)
  have res: "?r = Some (the ?r)"
    by (simp add: accept_sync_scenes [OF cur])
  have len: "length (scenes reviewMovie) = 4"
    by (simp add: reviewMovie_def fourScenes_eval)
  have loc: "suggestedLocation ?sg = 3"
    by (simp add: suggestionPlant_def)
  have k: "2 = nat (clamp_spec (suggestedLocation ?sg - 1) 0 (int (length (scenes reviewMovie))))"
    by (simp add: len loc clamp_spec_def)
  have old: "scene_id (scenes reviewMovie ! 2) = ''uuid-5''"
    by (simp add: reviewMovie_def fourScenes_eval)
  from accept_suggestion_position [OF cur res k] len loc
  have "length (scenes (the ?r)) = 5
      \<and> scenes (the ?r) ! 2 = (newSceneOf ''uuid-new'' ?sg)\<lparr>sceneNumber := 3\<rparr>
      \<and> scenes (the ?r) ! 3 = (scenes reviewMovie ! 2)\<lparr>sceneNumber := 4\<rparr>"
    by blast
  with cur len loc old show ?thesis
    by (simp add: newSceneOf_def)
qed

section \<open>Frame of the id-keyed updates\<close>

lemma map_keyed_none:
  "\<forall>x\<in>set xs. key x \<noteq> k \<Longrightarrow> map (\<lambda>x. if key x = k then f x else x) xs = xs"
  by (induction xs) auto

lemma foldl_keyed_none:
  "\<forall>x\<in>set xs. key x \<noteq> k \<Longrightarrow> foldl (\<lambda>acc x. if key x = k then g x else acc) a xs = a"
  by (induction xs arbitrary: a) auto

lemma map_keyed_distinct:
  assumes "distinct (map key xs)" and "i < length xs" and "key (xs ! i) = k"
  shows "map (\<lambda>x. if key x = k then f x else x) xs = xs[i := f (xs ! i)]"
proof (rule nth_equalityI)
  show "length (map (\<lambda>x. if key x = k then f x else x) xs) = length (xs[i := f (xs ! i)])"
    by simp
next
  fix j assume "j < length (map (\<lambda>x. if key x = k then f x else x) xs)"
  then have j: "j < length xs" by simp
  show "map (\<lambda>x. if key x = k then f x else x) xs ! j = xs[i := f (xs ! i)] ! j"
  proof (cases "j = i")
    case True
    with assms show ?thesis by simp
  next
    case False
    from assms(1) have "distinct (map key xs)" .
    with j assms(2) False have "map key xs ! j \<noteq> map key xs ! i"
      using nth_eq_iff_index_eq [of "map key xs" j i] by simp
    with j assms(2,3) have "key (xs ! j) \<noteq> k" by simp
    with j False show ?thesis by simp
  qed
qed

lemma update_image_no_match:
  assumes "\<forall>m. movieData s = Some m \<longrightarrow> cid \<notin> char_id ` set (characters m)"
  shows "handleUpdateCharacterImage cid v s = s"
proof (cases "movieData s")
  case None
  then show ?thesis by (simp add: handleUpdateCharacterImage_def)
next
  case (Some m)
  with assms have nm: "\<forall>c\<in>set (characters m). char_id c \<noteq> cid" by auto
  show ?thesis
    using Some
    by (simp add: handleUpdateCharacterImage_def Let_def map_keyed_none [OF nm]
          foldl_keyed_none [OF nm])
qed

lemma update_voice_no_match:
  assumes "\<forall>m. movieData s = Some m \<longrightarrow> cid \<notin> char_id ` set (characters m)"
  shows "handleUpdateCharacterVoiceLine cid v s = s"
proof (cases "movieData s")
  case None
  then show ?thesis by (simp add: handleUpdateCharacterVoiceLine_def)
next
  case (Some m)
  with assms have nm: "\<forall>c\<in>set (characters m). char_id c \<noteq> cid" by auto
  show ?thesis
    using Some
    by (simp add: handleUpdateCharacterVoiceLine_def Let_def map_keyed_none [OF nm]
          foldl_keyed_none [OF nm])
qed

lemma update_video_no_match:
  assumes "\<forall>m. movieData s = Some m \<longrightarrow> sid \<notin> scene_id ` set (scenes m)"
  shows "handleUpdateSceneVideo sid v s = s"
proof (cases "movieData s")
  case None
  then show ?thesis by (simp add: handleUpdateSceneVideo_def)
next
  case (Some m)
  with assms have nm: "\<forall>c\<in>set (scenes m). scene_id c \<noteq> sid" by auto
  show ?thesis
    using Some
    by (simp add: handleUpdateSceneVideo_def Let_def map_keyed_none [OF nm]
          foldl_keyed_none [OF nm])
qed

lemma update_image_document:
  "movieData s = Some m \<Longrightarrow>
   movieData (handleUpdateCharacterImage cid v s) =
     Some (m\<lparr>characters := map (\<lambda>c. if char_id c = cid then c\<lparr>imageUrl := v\<rparr> else c)
                               (characters m)\<rparr>)"
  by (simp add: handleUpdateCharacterImage_def Let_def addLog_def)

lemma update_voice_document:
  "movieData s = Some m \<Longrightarrow>
   movieData (handleUpdateCharacterVoiceLine cid v s) =
     Some (m\<lparr>characters := map (\<lambda>c. if char_id c = cid then c\<lparr>voiceLine := Some v\<rparr> else c)
                               (characters m)\<rparr>)"
  by (simp add: handleUpdateCharacterVoiceLine_def Let_def addLog_def)

lemma update_video_document:
  "movieData s = Some m \<Longrightarrow>
   movieData (handleUpdateSceneVideo sid v s) =
     Some (m\<lparr>scenes := map (\<lambda>sc. if scene_id sc = sid then sc\<lparr>storyboardVideoUrl := v\<rparr> else sc)
                           (scenes m)\<rparr>)"
  by (simp add: handleUpdateSceneVideo_def Let_def addLog_def)

text \<open>
  C10.  The three id-keyed updates (character image, character voice line, scene video):
  when no item of the document has the given id (or no document is set) the update leaves
  the whole state as it is; when the item at some index has the id, ids being unique, the
  resulting document is the old one with the targeted field of that one item replaced.
\<close>

theorem id_keyed_update_frame:
  "((\<forall>m. movieData s = Some m \<longrightarrow> cid \<notin> char_id ` set (characters m))
      \<longrightarrow> handleUpdateCharacterImage cid v s = s
        \<and> handleUpdateCharacterVoiceLine cid v s = s)
   \<and> ((\<forall>m. movieData s = Some m \<longrightarrow> sid \<notin> scene_id ` set (scenes m))
      \<longrightarrow> handleUpdateSceneVideo sid v s = s)
   \<and> (movieData s = Some m \<and> distinct (map char_id (characters m))
        \<and> i < length (characters m) \<and> char_id (characters m ! i) = cid
      \<longrightarrow> movieData (handleUpdateCharacterImage cid v s)
            = Some (m\<lparr>characters := (characters m)[i := (characters m ! i)\<lparr>imageUrl := v\<rparr>]\<rparr>)
        \<and> movieData (handleUpdateCharacterVoiceLine cid v s)
            = Some (m\<lparr>characters :=
                        (characters m)[i := (characters m ! i)\<lparr>voiceLine := Some v\<rparr>]\<rparr>))
   \<and> (movieData s = Some m \<and> distinct (map scene_id (scenes m))
        \<and> j < length (scenes m) \<and> scene_id (scenes m ! j) = sid
      \<longrightarrow> movieData (handleUpdateSceneVideo sid v s)
            = Some (m\<lparr>scenes := (scenes m)[j := (scenes m ! j)\<lparr>storyboardVideoUrl := v\<rparr>]\<rparr>))"
  by (auto simp: update_image_no_match update_voice_no_match update_video_no_match
        update_image_document update_voice_document update_video_document
        map_keyed_distinct)

lemma reviewApp_document: "movieData reviewApp = Some reviewMovie"
  by (simp add: reviewApp_def)

lemma reviewMovie_character_ids: "map char_id (characters reviewMovie) = [''uuid-0'', ''uuid-1'']"
  by (simp add: reviewMovie_def twoCharacters_def)

lemma reviewMovie_scene_ids:
  "map scene_id (scenes reviewMovie) = [''uuid-3'', ''uuid-4'', ''uuid-5'', ''uuid-6'']"
  by (simp add: reviewMovie_def fourScenes_def withSceneIds_def mockAnalysis_scenes_def
        decimal_digit digitChar_def)

theorem id_keyed_update_frame_witness:
  "handleUpdateCharacterImage ''stale-id'' ''new'' reviewApp = reviewApp
   \<and> handleUpdateCharacterVoiceLine ''stale-id'' ''new'' reviewApp = reviewApp
   \<and> handleUpdateSceneVideo ''stale-id'' ''new'' reviewApp = reviewApp
   \<and> movieData (handleUpdateCharacterImage ''uuid-1'' ''new'' reviewApp)
       = Some (reviewMovie\<lparr>characters :=
                 (characters reviewMovie)[1 := (characters reviewMovie ! 1)\<lparr>imageUrl := ''new''\<rparr>]\<rparr>)
   \<and> movieData (handleUpdateCharacterVoiceLine ''uuid-1'' ''new'' reviewApp)
       = Some (reviewMovie\<lparr>characters :=
                 (characters reviewMovie)[1 := (characters reviewMovie ! 1)\<lparr>voiceLine := Some ''new''\<rparr>]\<rparr>)
   \<and> movieData (handleUpdateSceneVideo ''uuid-5'' ''new'' reviewApp)
       = Some (reviewMovie\<lparr>scenes :=
                 (scenes reviewMovie)[2 := (scenes reviewMovie ! 2)\<lparr>storyboardVideoUrl := ''new''\<rparr>]\<rparr>)"
proof -
  have no_char: "\<forall>m. movieData reviewApp = Some m \<longrightarrow> ''stale-id'' \<notin> char_id ` set (characters m)"
    using reviewMovie_character_ids by (auto simp: reviewApp_document simp flip: set_map)
  have no_scene: "\<forall>m. movieData reviewApp = Some m \<longrightarrow> ''stale-id'' \<notin> scene_id ` set (scenes m)"
    using reviewMovie_scene_ids by (auto simp: reviewApp_document simp flip: set_map)
  have chars: "distinct (map char_id (characters reviewMovie)) \<and> 1 < length (characters reviewMovie)
      \<and> char_id (characters reviewMovie ! 1) = ''uuid-1''"
    by (simp add: reviewMovie_def twoCharacters_def)
  have scs: "distinct (map scene_id (scenes reviewMovie)) \<and> 2 < length (scenes reviewMovie)
      \<and> scene_id (scenes reviewMovie ! 2) = ''uuid-5''"
    by (simp add: reviewMovie_def fourScenes_def withSceneIds_def mockAnalysis_scenes_def
          decimal_digit digitChar_def)
  note stale = id_keyed_update_frame [where s = reviewApp and cid = "''stale-id''"
      and sid = "''stale-id''" and v = "''new''" and m = reviewMovie and i = 1 and j = 2]
  note fresh = id_keyed_update_frame [where s = reviewApp and cid = "''uuid-1''"
      and sid = "''uuid-5''" and v = "''new''" and m = reviewMovie and i = 1 and j = 2]
  from stale no_char no_scene
  have a: "handleUpdateCharacterImage ''stale-id'' ''new'' reviewApp = reviewApp
     \<and> handleUpdateCharacterVoiceLine ''stale-id'' ''new'' reviewApp = reviewApp
     \<and> handleUpdateSceneVideo ''stale-id'' ''new'' reviewApp = reviewApp"
    by blast
  from fresh reviewApp_document chars scs
  have b: "movieData (handleUpdateCharacterImage ''uuid-1'' ''new'' reviewApp)
       = Some (reviewMovie\<lparr>characters :=
                 (characters reviewMovie)[1 := (characters reviewMovie ! 1)\<lparr>imageUrl := ''new''\<rparr>]\<rparr>)
   \<and> movieData (handleUpdateCharacterVoiceLine ''uuid-1'' ''new'' reviewApp)
       = Some (reviewMovie\<lparr>characters :=
                 (characters reviewMovie)[1 := (characters reviewMovie ! 1)\<lparr>voiceLine := Some ''new''\<rparr>]\<rparr>)
   \<and> movieData (handleUpdateSceneVideo ''uuid-5'' ''new'' reviewApp)
       = Some (reviewMovie\<lparr>scenes :=
                 (scenes reviewMovie)[2 := (scenes reviewMovie ! 2)\<lparr>storyboardVideoUrl := ''new''\<rparr>]\<rparr>)"
    by blast
  from a b show ?thesis by blast
qed

section \<open>Regeneration: loading value and restore\<close>

lemma find_keyed_distinct:
  "distinct (map key xs) \<Longrightarrow> i < length xs \<Longrightarrow> key (xs ! i) = k \<Longrightarrow>
   find (\<lambda>x. key x = k) xs = Some (xs ! i)"
proof (induction xs arbitrary: i)
  case Nil
  then show ?case by simp
next
  case (Cons x xs)
  show ?case
  proof (cases i)
    case 0
    with Cons.prems show ?thesis by simp
  next
    case (Suc j)
    with Cons.prems have j: "j < length xs" "key (xs ! j) = k" by simp_all
    then have "k \<in> key ` set xs" by (metis imageI nth_mem)
    with Cons.prems(1) have "key x \<noteq> k" by auto
    moreover from Cons.prems(1) have "distinct (map key xs)" by simp
    ultimately show ?thesis using Cons.IH [OF _ j] Suc by simp
  qed
qed

lemma update_image_status:
  "appState (handleUpdateCharacterImage cid v s) = appState s"
  "error (handleUpdateCharacterImage cid v s) = error s"
  by (simp_all add: handleUpdateCharacterImage_def Let_def addLog_def split: option.split)

lemma update_video_status:
  "appState (handleUpdateSceneVideo sid v s) = appState s"
  "error (handleUpdateSceneVideo sid v s) = error s"
  by (simp_all add: handleUpdateSceneVideo_def Let_def addLog_def split: option.split)

lemma addLog_fields:
  "movieData (addLog msg s) = movieData s"
  "appState (addLog msg s) = appState s"
  "error (addLog msg s) = error s"
  by (simp_all add: addLog_def)

lemma regenerate_character_sync_document:
  assumes "movieData s = Some m" and "distinct (map char_id (characters m))"
    and "i < length (characters m)" and "char_id (characters m ! i) = cid"
  shows "movieData (handleRegenerateCharacter_sync (Some m) cid s) =
    Some (m\<lparr>characters := (characters m)[i := (characters m ! i)\<lparr>imageUrl := ''''\<rparr>]\<rparr>)"
  using assms
  by (simp add: handleRegenerateCharacter_sync_def find_keyed_distinct update_image_document
        addLog_fields map_keyed_distinct)

lemma regenerate_scene_sync_document:
  assumes "movieData s = Some m" and "distinct (map scene_id (scenes m))"
    and "j < length (scenes m)" and "scene_id (scenes m ! j) = sid"
  shows "movieData (handleRegenerateScene_sync (Some m) sid s) =
    Some (m\<lparr>scenes := (scenes m)[j := (scenes m ! j)\<lparr>storyboardVideoUrl := ''''\<rparr>]\<rparr>)"
  using assms
  by (simp add: handleRegenerateScene_sync_def find_keyed_distinct update_video_document
        addLog_fields map_keyed_distinct)

lemma regenerate_voice_sync_document:
  "movieData (handleRegenerateCharacterVoiceLine_sync md cid s) = movieData s"
  by (simp add: handleRegenerateCharacterVoiceLine_sync_def addLog_fields split: option.split)

text \<open>
  C5.  Regenerating the image of an existing character, on the rendered document and
  with ids unique: the handler's promise resolves, status and error message are as
  before; when the collaborator succeeds the document is the old one with that
  character's image reference replaced by the returned value, and when it fails the
  document is exactly the one before the regeneration (the old reference, not the
  empty loading value).
\<close>

theorem regenerate_character_image:
  assumes doc: "movieData s = Some m" and ids: "distinct (map char_id (characters m))"
    and i: "i < length (characters m)" and cid: "char_id (characters m ! i) = cid"
  shows "\<exists>s'. handleRegenerateCharacter generate (Some m) cid s = Inr s'
     \<and> appState s' = appState s \<and> error s' = error s
     \<and> (case generate (char_description (characters m ! i)) (stylePrompt m) (quality m) of
          Inr url \<Rightarrow>
            movieData s' =
              Some (m\<lparr>characters := (characters m)[i := (characters m ! i)\<lparr>imageUrl := url\<rparr>]\<rparr>)
        | Inl e \<Rightarrow> movieData s' = Some m)"
proof -
  let ?c = "characters m ! i"
  let ?s1 = "handleRegenerateCharacter_sync (Some m) cid s"
  let ?m1 = "m\<lparr>characters := (characters m)[i := ?c\<lparr>imageUrl := ''''\<rparr>]\<rparr>"
  have fnd: "find (\<lambda>c. char_id c = cid) (characters m) = Some ?c"
    using ids i cid by (rule find_keyed_distinct)
  have s1: "movieData ?s1 = Some ?m1"
    using doc ids i cid by (rule regenerate_character_sync_document)
  have st1: "appState ?s1 = appState s" "error ?s1 = error s"
    by (simp_all add: handleRegenerateCharacter_sync_def fnd update_image_status addLog_fields)
  have "(map char_id (characters m))[i := char_id ?c] = map char_id (characters m)"
    using i by (simp add: list_update_same_conv)
  then have ids1: "distinct (map char_id (characters ?m1))"
    using ids by (simp add: map_update)
  have i1: "i < length (characters ?m1)" "char_id (characters ?m1 ! i) = cid"
    using i cid by simp_all
  show ?thesis
  proof (cases "generate (char_description ?c) (stylePrompt m) (quality m)")
    case (Inr url)
    have "movieData (handleUpdateCharacterImage cid url ?s1) =
        Some (?m1\<lparr>characters := (characters ?m1)[i := (characters ?m1 ! i)\<lparr>imageUrl := url\<rparr>]\<rparr>)"
      by (simp only: update_image_document [OF s1] map_keyed_distinct [OF ids1 i1])
    then have "movieData (handleUpdateCharacterImage cid url ?s1) =
        Some (m\<lparr>characters := (characters m)[i := ?c\<lparr>imageUrl := url\<rparr>]\<rparr>)"
      using i by simp
    then show ?thesis
      using Inr st1
      by (simp add: handleRegenerateCharacter_def handleRegenerateCharacter_settle_def fnd
            update_image_status)
  next
    case (Inl e)
    let ?s2 = "addLog (''Failed to regenerate visual for '' @ char_name ?c
                 @ ''. Restoring original.'') ?s1"
    have s2: "movieData ?s2 = Some ?m1" by (simp add: addLog_fields s1)
    have "movieData (handleUpdateCharacterImage cid (imageUrl ?c) ?s2) =
        Some (?m1\<lparr>characters :=
                (characters ?m1)[i := (characters ?m1 ! i)\<lparr>imageUrl := imageUrl ?c\<rparr>]\<rparr>)"
      by (simp only: update_image_document [OF s2] map_keyed_distinct [OF ids1 i1])
    then have "movieData (handleUpdateCharacterImage cid (imageUrl ?c) ?s2) = Some m"
      using i by simp
    then show ?thesis
      using Inl st1
      by (simp add: handleRegenerateCharacter_def handleRegenerateCharacter_settle_def fnd
            update_image_status addLog_fields)
  qed
qed

lemma reviewMovie_characters:
  "distinct (map char_id (characters reviewMovie))"
  "1 < length (characters reviewMovie)"
  "char_id (characters reviewMovie ! 1) = ''uuid-1''"
  "0 < length (characters reviewMovie)"
  "char_id (characters reviewMovie ! 0) = ''uuid-0''"
  by (simp_all add: reviewMovie_def twoCharacters_def)

lemma reviewMovie_scenes:
  "distinct (map scene_id (scenes reviewMovie))"
  "2 < length (scenes reviewMovie)"
  "scene_id (scenes reviewMovie ! 2) = ''uuid-5''"
  by (simp_all add: reviewMovie_def fourScenes_def withSceneIds_def mockAnalysis_scenes_def
        decimal_digit digitChar_def)

theorem regenerate_character_image_witness:
  "movieData reviewApp = Some reviewMovie
   \<and> distinct (map char_id (characters reviewMovie))
   \<and> 1 < length (characters reviewMovie)
   \<and> char_id (characters reviewMovie ! 1) = ''uuid-1''
   \<and> imageUrl (characters reviewMovie ! 1) = ''image-1''
   \<and> (\<exists>s'. handleRegenerateCharacter (\<lambda>d p q. Inl (JsError ''quota exceeded''))
               (Some reviewMovie) ''uuid-1'' reviewApp = Inr s'
          \<and> appState s' = REVIEW \<and> error s' = None
          \<and> movieData s' = Some reviewMovie)
   \<and> (\<exists>s'. handleRegenerateCharacter (\<lambda>d p q. Inr ''image-new'')
               (Some reviewMovie) ''uuid-1'' reviewApp = Inr s'
          \<and> appState s' = REVIEW \<and> error s' = None
          \<and> movieData s' = Some (reviewMovie\<lparr>characters :=
                (characters reviewMovie)[1 := (characters reviewMovie ! 1)\<lparr>imageUrl := ''image-new''\<rparr>]\<rparr>))"
proof -
  note pre = reviewApp_document reviewMovie_characters(1,2,3)
  have st: "appState reviewApp = REVIEW" "error reviewApp = None"
    by (simp_all add: reviewApp_def initialApp_def)
  have img: "imageUrl (characters reviewMovie ! 1) = ''image-1''"
    by (simp add: reviewMovie_def twoCharacters_def)
  from regenerate_character_image [OF pre, of "\<lambda>d p q. Inl (JsError ''quota exceeded'')"]
  have a: "\<exists>s'. handleRegenerateCharacter (\<lambda>d p q. Inl (JsError ''quota exceeded''))
               (Some reviewMovie) ''uuid-1'' reviewApp = Inr s'
          \<and> appState s' = REVIEW \<and> error s' = None
          \<and> movieData s' = Some reviewMovie"
    by (simp add: st)
  from regenerate_character_image [OF pre, of "\<lambda>d p q. Inr ''image-new''"]
  have b: "\<exists>s'. handleRegenerateCharacter (\<lambda>d p q. Inr ''image-new'')
               (Some reviewMovie) ''uuid-1'' reviewApp = Inr s'
          \<and> appState s' = REVIEW \<and> error s' = None
          \<and> movieData s' = Some (reviewMovie\<lparr>characters :=
                (characters reviewMovie)[1 := (characters reviewMovie ! 1)\<lparr>imageUrl := ''image-new''\<rparr>]\<rparr>)"
    by (simp add: st)
  from pre img a b show ?thesis by blast
qed

text \<open>
  C6, as stated, fails for the voice line: right after the synchronous part of
  \<open>handleRegenerateCharacterVoiceLine\<close> for the first character of \<open>reviewMovie\<close>, the
  document is unchanged and the character's voice line is still its old text, not the
  empty string.
\<close>

theorem regenerate_voice_line_keeps_old_line:
  "movieData reviewApp = Some reviewMovie
   \<and> char_id (characters reviewMovie ! 0) = ''uuid-0''
   \<and> movieData (handleRegenerateCharacterVoiceLine_sync (Some reviewMovie) ''uuid-0'' reviewApp)
       = Some reviewMovie
   \<and> voiceLine (characters reviewMovie ! 0) = Some ''I am Ann''
   \<and> voiceLine (characters reviewMovie ! 0) \<noteq> Some []"
  by (simp add: reviewApp_document regenerate_voice_sync_document reviewMovie_characters)
     (simp add: reviewMovie_def twoCharacters_def)

text \<open>
  C6, amended.  Before its collaborator call starts, regenerating a character image sets
  that character's image reference to the empty string, and regenerating a scene
  storyboard sets that scene's video reference to the empty string; regenerating a voice
  line writes nothing to the document before its call.
\<close>

theorem regeneration_sentinel:
  "(movieData s = Some m \<and> distinct (map char_id (characters m))
      \<and> i < length (characters m) \<and> char_id (characters m ! i) = cid
     \<longrightarrow> movieData (handleRegenerateCharacter_sync (Some m) cid s)
          = Some (m\<lparr>characters := (characters m)[i := (characters m ! i)\<lparr>imageUrl := []\<rparr>]\<rparr>))
   \<and> (movieData s = Some m \<and> distinct (map scene_id (scenes m))
      \<and> j < length (scenes m) \<and> scene_id (scenes m ! j) = sid
     \<longrightarrow> movieData (handleRegenerateScene_sync (Some m) sid s)
          = Some (m\<lparr>scenes := (scenes m)[j := (scenes m ! j)\<lparr>storyboardVideoUrl := []\<rparr>]\<rparr>))
   \<and> movieData (handleRegenerateCharacterVoiceLine_sync md cid s) = movieData s"
  by (simp add: regenerate_character_sync_document regenerate_scene_sync_document
        regenerate_voice_sync_document)

theorem regeneration_sentinel_witness:
  "movieData reviewApp = Some reviewMovie
   \<and> distinct (map char_id (characters reviewMovie))
   \<and> 1 < length (characters reviewMovie) \<and> char_id (characters reviewMovie ! 1) = ''uuid-1''
   \<and> distinct (map scene_id (scenes reviewMovie))
   \<and> 2 < length (scenes reviewMovie) \<and> scene_id (scenes reviewMovie ! 2) = ''uuid-5''
   \<and> movieData (handleRegenerateCharacter_sync (Some reviewMovie) ''uuid-1'' reviewApp)
       = Some (reviewMovie\<lparr>characters :=
                 (characters reviewMovie)[1 := (characters reviewMovie ! 1)\<lparr>imageUrl := []\<rparr>]\<rparr>)
   \<and> movieData (handleRegenerateScene_sync (Some reviewMovie) ''uuid-5'' reviewApp)
       = Some (reviewMovie\<lparr>scenes :=
                 (scenes reviewMovie)[2 := (scenes reviewMovie ! 2)\<lparr>storyboardVideoUrl := []\<rparr>]\<rparr>)
   \<and> movieData (handleRegenerateCharacterVoiceLine_sync (Some reviewMovie) ''uuid-1'' reviewApp)
       = Some reviewMovie"
  using regeneration_sentinel [where s = reviewApp and m = reviewMovie and i = 1 and j = 2
      and cid = "''uuid-1''" and sid = "''uuid-5''" and md = "Some reviewMovie"]
    reviewApp_document reviewMovie_characters(1,2,3) reviewMovie_scenes
  by simp

section \<open>The character-visual stage\<close>

lemma characterVisualsLoop_length:
  "length (fst (characterVisualsLoop env st q k cs acc s)) = length acc + length cs"
  by (induction cs arbitrary: k acc s) (auto split: sum.split)

lemma characterVisualsLoop_prefix:
  "i < length acc \<Longrightarrow> fst (characterVisualsLoop env st q k cs acc s) ! i = acc ! i"
  by (induction cs arbitrary: k acc s) (auto split: sum.split simp: nth_append)

lemma characterVisualsLoop_nth:
  "i < length cs \<Longrightarrow>
   fst (characterVisualsLoop env st q k cs acc s) ! (length acc + i) =
     (case generateCharacterImage env (k + i) (char_description (cs ! i)) st q of
        Inr url \<Rightarrow> (cs ! i)\<lparr>imageUrl := url\<rparr>
      | Inl e \<Rightarrow> cs ! i)"
proof (induction cs arbitrary: i k acc s)
  case Nil
  then show ?case by simp
next
  case (Cons c cs)
  show ?case
  proof (cases i)
    case 0
    then show ?thesis
      using characterVisualsLoop_prefix [of "length acc" "acc @ [x]" for x]
      by (simp split: sum.split)
  next
    case (Suc j)
    with Cons.prems have j: "j < length cs" by simp
    have "length (acc @ [x]) + j = length acc + i" for x :: Character
      using Suc by simp
    then show ?thesis
      using Cons.IH [OF j, where k = "Suc k" and acc = "acc @ [x]" for x] Suc
      by (simp split: sum.split)
  qed
qed

lemma characterVisualsLoop_state:
  "snd (characterVisualsLoop env st q k cs acc s) =
     s\<lparr>processingLog := processingLog (snd (characterVisualsLoop env st q k cs acc s))\<rparr>"
proof (induction cs arbitrary: k acc s)
  case Nil
  then show ?case by simp
next
  case (Cons c cs)
  show ?case
  proof (cases "generateCharacterImage env k (char_description c) st q")
    case (Inl e)
    then show ?thesis
      using Cons.IH [of "Suc k" "acc @ [c]"
          "addLog (''Failed to generate visual for '' @ char_name c @ ''. Error: ''
                      @ messageOf e ''Unknown error'') s"]
      by (simp add: addLog_def)
  next
    case (Inr url)
    then show ?thesis
      using Cons.IH [of "Suc k" "acc @ [c\<lparr>imageUrl := url\<rparr>]"
          "addLog (''Visual for character '' @ char_name c @ '' created.'') s"]
      by (simp add: addLog_def)
  qed
qed

lemma stage_characterVisuals_eq:
  "stage_characterVisuals env st q movie s =
     (let L = characterVisualsLoop env st q 0 (characters movie) []
                (addLog ''Generating character visuals (one at a time to respect API limits)...''
                   (s\<lparr>processingStage := GENERATING_CHARACTERS\<rparr>));
          movie' = movie\<lparr>characters := fst L\<rparr>
      in (movie', addLog ''All character visuals generated.'' ((snd L)\<lparr>movieData := Some movie'\<rparr>)))"
  by (simp add: stage_characterVisuals_def Let_def case_prod_beta)

lemma stage_characterVisuals_document:
  "movieData (snd (stage_characterVisuals env st q movie s)) =
     Some (fst (stage_characterVisuals env st q movie s))"
  by (simp add: stage_characterVisuals_eq Let_def addLog_def)

lemma stage_characterVisuals_status:
  "appState (snd (stage_characterVisuals env st q movie s)) = appState s"
  "error (snd (stage_characterVisuals env st q movie s)) = error s"
proof -
  let ?s1 = "addLog ''Generating character visuals (one at a time to respect API limits)...''
                   (s\<lparr>processingStage := GENERATING_CHARACTERS\<rparr>)"
  let ?L = "characterVisualsLoop env st q 0 (characters movie) [] ?s1"
  have "appState (snd ?L) = appState ?s1" "error (snd ?L) = error ?s1"
    by (subst characterVisualsLoop_state, simp)+
  then show "appState (snd (stage_characterVisuals env st q movie s)) = appState s"
    "error (snd (stage_characterVisuals env st q movie s)) = error s"
    by (simp_all add: stage_characterVisuals_eq Let_def addLog_def)
qed

lemma stage_characterVisuals_characters:
  "length (characters (fst (stage_characterVisuals env st q movie s))) = length (characters movie)"
  "i < length (characters movie) \<Longrightarrow>
   characters (fst (stage_characterVisuals env st q movie s)) ! i =
     (case generateCharacterImage env i (char_description (characters movie ! i)) st q of
        Inr url \<Rightarrow> (characters movie ! i)\<lparr>imageUrl := url\<rparr>
      | Inl e \<Rightarrow> characters movie ! i)"
  using characterVisualsLoop_nth [of i "characters movie" env st q 0 "[]"]
  by (simp_all add: stage_characterVisuals_eq Let_def characterVisualsLoop_length)

lemma stage_characterVisuals_rest:
  "fst (stage_characterVisuals env st q movie s) =
     movie\<lparr>characters := characters (fst (stage_characterVisuals env st q movie s))\<rparr>"
  by (simp add: stage_characterVisuals_eq Let_def)

text \<open>The stage as a whole: what it returns and what it leaves untouched.\<close>

lemma character_visuals_stage:
  "case stage_characterVisuals env st q movie s of
     (movie', s') \<Rightarrow>
        movie' = movie\<lparr>characters := characters movie'\<rparr>
      \<and> movieData s' = Some movie' \<and> appState s' = appState s \<and> error s' = error s
      \<and> length (characters movie') = length (characters movie)
      \<and> (\<forall>i<length (characters movie).
            characters movie' ! i =
              (case generateCharacterImage env i (char_description (characters movie ! i)) st q of
                 Inr url \<Rightarrow> (characters movie ! i)\<lparr>imageUrl := url\<rparr>
               | Inl e \<Rightarrow> characters movie ! i))"
  unfolding case_prod_beta
proof (intro conjI allI impI)
  show "fst (stage_characterVisuals env st q movie s) =
      movie\<lparr>characters := characters (fst (stage_characterVisuals env st q movie s))\<rparr>"
    by (rule stage_characterVisuals_rest)
qed (simp_all add: stage_characterVisuals_document stage_characterVisuals_status
      stage_characterVisuals_characters)

lemma draftMovie_characters:
  "characters draftMovie = draftCharacters"
  "distinct (map char_id (characters draftMovie))"
  "length (characters draftMovie) = 2"
  by (simp_all add: draftMovie_def draftCharacters_def)

section \<open>The voice-line stage\<close>

lemma promiseAll_Inr: "promiseAll rs = Inr vs \<Longrightarrow> rs = map Inr vs"
proof (induction rs arbitrary: vs)
  case Nil
  then show ?case by simp
next
  case (Cons r rs)
  then show ?case
    by (cases r) (auto split: sum.splits)
qed

lemma promiseAll_map_Inr: "promiseAll (map Inr vs) = Inr vs"
  by (induction vs) simp_all

lemma promiseAll_Inl: "promiseAll rs = Inl e \<Longrightarrow> Inl e \<in> set rs"
proof (induction rs)
  case Nil
  then show ?case by simp
next
  case (Cons r rs)
  then show ?case
    by (cases r) (auto split: sum.splits)
qed

text \<open>What the calls of the voice-line stage return when all of them succeed.\<close>

lemma voiceLine_settlements:
  assumes "promiseAll (map (voiceLineCall env) (zip cs [0 ..< length cs])) = Inr us"
  shows "length us = length cs"
    and "\<forall>j<length cs.
         \<exists>line. generateCharacterVoiceLine env j (cs ! j) = Inr line
                \<and> us ! j = (cs ! j)\<lparr>voiceLine := Some line\<rparr>"
proof -
  from assms have eq: "map (voiceLineCall env) (zip cs [0 ..< length cs]) = map Inr us"
    by (rule promiseAll_Inr)
  then have "length (map (voiceLineCall env) (zip cs [0 ..< length cs])) = length (map Inr us)"
    by simp
  then show len: "length us = length cs" by simp
  show "\<forall>j<length cs.
         \<exists>line. generateCharacterVoiceLine env j (cs ! j) = Inr line
                \<and> us ! j = (cs ! j)\<lparr>voiceLine := Some line\<rparr>"
  proof (intro allI impI)
    fix j assume j: "j < length cs"
    from eq have "map (voiceLineCall env) (zip cs [0 ..< length cs]) ! j = map Inr us ! j"
      by simp
    with j len have "voiceLineCall env (cs ! j, j) = Inr (us ! j)" by simp
    then show "\<exists>line. generateCharacterVoiceLine env j (cs ! j) = Inr line
                  \<and> us ! j = (cs ! j)\<lparr>voiceLine := Some line\<rparr>"
      by (auto simp: voiceLineCall_def split: sum.splits)
  qed
qed

text \<open>Looking a character up by id among the updated ones, ids being unique.\<close>

lemma find_updated:
  assumes ids: "distinct (map char_id cs)"
    and len: "length us = length (filter p cs)"
    and upd: "\<forall>j<length (filter p cs).
                 \<exists>line. gen j (filter p cs ! j) = Inr line
                        \<and> us ! j = (filter p cs ! j)\<lparr>voiceLine := Some line\<rparr>"
    and x: "x \<in> set cs"
  shows "\<not> p x \<Longrightarrow> find (\<lambda>u. char_id u = char_id x) us = None"
    and "p x \<Longrightarrow> \<exists>k line. gen k x = Inr line
            \<and> find (\<lambda>u. char_id u = char_id x) us = Some (x\<lparr>voiceLine := Some line\<rparr>)"
proof -
  have inj: "inj_on char_id (set cs)"
    using ids by (simp add: distinct_map)
  have origin: "p x \<and> (\<exists>j line. j < length (filter p cs) \<and> gen j x = Inr line
                  \<and> u = x\<lparr>voiceLine := Some line\<rparr>)"
    if u: "u \<in> set us" and id: "char_id u = char_id x" for u
  proof -
    from u obtain j where j: "j < length us" "us ! j = u" by (auto simp: in_set_conv_nth)
    with len have j': "j < length (filter p cs)" by simp
    from upd j' obtain line where
      line: "gen j (filter p cs ! j) = Inr line" "us ! j = (filter p cs ! j)\<lparr>voiceLine := Some line\<rparr>"
      by blast
    have mem: "filter p cs ! j \<in> set (filter p cs)" using j' by (rule nth_mem)
    then have mem': "filter p cs ! j \<in> set cs" "p (filter p cs ! j)" by simp_all
    have "char_id (filter p cs ! j) = char_id x" using line(2) j(2) id by auto
    with mem'(1) have "filter p cs ! j = x" using inj x by (auto dest: inj_onD)
    with line j j' mem'(2) show ?thesis by auto
  qed
  {
    assume np: "\<not> p x"
    have "\<not> (\<exists>u\<in>set us. char_id u = char_id x)"
      using origin np by blast
    then show "find (\<lambda>u. char_id u = char_id x) us = None"
      by (simp add: find_None_iff)
  }
  {
    assume px: "p x"
    with x have "x \<in> set (filter p cs)" by simp
    then obtain j where j: "j < length (filter p cs)" "filter p cs ! j = x"
      unfolding in_set_conv_nth by blast
    from upd j obtain line where l: "us ! j = x\<lparr>voiceLine := Some line\<rparr>" by auto
    have "us ! j \<in> set us" using j(1) len by simp
    moreover have "char_id (us ! j) = char_id x" by (simp add: l)
    ultimately have "\<exists>u\<in>set us. char_id u = char_id x" by blast
    then obtain u where f: "find (\<lambda>u. char_id u = char_id x) us = Some u"
      by (cases "find (\<lambda>u. char_id u = char_id x) us") (auto simp: find_None_iff)
    then have "u \<in> set us" "char_id u = char_id x"
      by (auto simp: find_Some_iff)
    from origin [OF this] f
    show "\<exists>k line. gen k x = Inr line
            \<and> find (\<lambda>u. char_id u = char_id x) us = Some (x\<lparr>voiceLine := Some line\<rparr>)"
      by auto
  }
qed

lemma foldl_log_fields:
  "movieData (foldl (\<lambda>st r. case r of Inr c \<Rightarrow> addLog (f c) st | Inl e \<Rightarrow> st) s rs) = movieData s"
  "appState (foldl (\<lambda>st r. case r of Inr c \<Rightarrow> addLog (f c) st | Inl e \<Rightarrow> st) s rs) = appState s"
  "error (foldl (\<lambda>st r. case r of Inr c \<Rightarrow> addLog (f c) st | Inl e \<Rightarrow> st) s rs) = error s"
  by (induction rs arbitrary: s; simp add: addLog_fields split: sum.split)+

lemma stage_voiceLines_thrown:
  assumes "stage_voiceLines env movie s = Inl (e, s')"
  shows "movieData s' = movieData s \<and> appState s' = appState s \<and> error s' = error s"
  using assms
  by (auto simp: stage_voiceLines_def Let_def foldl_log_fields addLog_fields
      split: if_splits sum.splits)

lemma stage_voiceLines_returned:
  assumes ret: "stage_voiceLines env movie s = Inr (movie', s')"
    and ids: "distinct (map char_id (characters movie))"
  shows "movie' = movie\<lparr>characters := characters movie'\<rparr>"
    and "length (characters movie') = length (characters movie)"
    and "i < length (characters movie) \<Longrightarrow> voiceActor (characters movie ! i) = None \<Longrightarrow>
         characters movie' ! i = characters movie ! i"
    and "i < length (characters movie) \<Longrightarrow> voiceActor (characters movie ! i) \<noteq> None \<Longrightarrow>
         \<exists>k line. generateCharacterVoiceLine env k (characters movie ! i) = Inr line
           \<and> characters movie' ! i = (characters movie ! i)\<lparr>voiceLine := Some line\<rparr>"
proof -
  let ?cs = "characters movie"
  let ?p = "\<lambda>c. voiceActor c \<noteq> None"
  let ?filt = "filter ?p ?cs"
  show "movie' = movie\<lparr>characters := characters movie'\<rparr>"
    using ret by (auto simp: stage_voiceLines_def Let_def split: if_splits sum.splits)
  show "length (characters movie') = length ?cs"
    using ret by (auto simp: stage_voiceLines_def Let_def split: if_splits sum.splits)
  {
    assume i: "i < length ?cs"
    then have x: "?cs ! i \<in> set ?cs" by simp
    consider (none) "length ?filt = 0"
      | (some) us where "0 < length ?filt"
          "promiseAll (map (voiceLineCall env) (zip ?filt [0 ..< length ?filt])) = Inr us"
          "characters movie' =
             map (\<lambda>origChar. case find (\<lambda>updatedChar. char_id updatedChar = char_id origChar) us of
                    Some updatedChar \<Rightarrow> updatedChar | None \<Rightarrow> origChar) ?cs"
      using ret by (auto simp: stage_voiceLines_def Let_def split: if_splits sum.splits)
    then have "(voiceActor (?cs ! i) = None \<longrightarrow> characters movie' ! i = ?cs ! i)
      \<and> (voiceActor (?cs ! i) \<noteq> None \<longrightarrow>
           (\<exists>k line. generateCharacterVoiceLine env k (?cs ! i) = Inr line
              \<and> characters movie' ! i = (?cs ! i)\<lparr>voiceLine := Some line\<rparr>))"
    proof cases
      case none
      then have "?filt = []" by simp
      then have "\<not> ?p (?cs ! i)" using x by (metis (mono_tags, lifting) filter_empty_conv)
      moreover have "movie' = movie"
        using ret none by (auto simp: stage_voiceLines_def Let_def split: if_splits sum.splits)
      ultimately show ?thesis by simp
    next
      case some
      note st = voiceLine_settlements [OF some(2)]
      have fin: "characters movie' ! i =
          (case find (\<lambda>u. char_id u = char_id (?cs ! i)) us of Some u \<Rightarrow> u | None \<Rightarrow> ?cs ! i)"
        using i by (simp add: some(3))
      note fu = find_updated [where gen = "generateCharacterVoiceLine env", OF ids st(1) st(2) x]
      show ?thesis
      proof (cases "?p (?cs ! i)")
        case True
        from fu(2) [OF True] obtain k line where
          "generateCharacterVoiceLine env k (?cs ! i) = Inr line"
          "find (\<lambda>u. char_id u = char_id (?cs ! i)) us = Some ((?cs ! i)\<lparr>voiceLine := Some line\<rparr>)"
          by blast
        with fin have "generateCharacterVoiceLine env k (?cs ! i) = Inr line
           \<and> characters movie' ! i = (?cs ! i)\<lparr>voiceLine := Some line\<rparr>" by simp
        with True show ?thesis by blast
      next
        case False
        from fu(1) [OF False] fin False show ?thesis by auto
      qed
    qed
  }
  note both = this
  show "i < length ?cs \<Longrightarrow> voiceActor (?cs ! i) = None \<Longrightarrow> characters movie' ! i = ?cs ! i"
    using both by blast
  show "i < length ?cs \<Longrightarrow> voiceActor (?cs ! i) \<noteq> None \<Longrightarrow>
         \<exists>k line. generateCharacterVoiceLine env k (?cs ! i) = Inr line
           \<and> characters movie' ! i = (?cs ! i)\<lparr>voiceLine := Some line\<rparr>"
    using both by blast
qed

lemma stage_voiceLines_document:
  assumes "stage_voiceLines env movie s = Inr (movie', s')" and "movieData s = Some movie"
  shows "movieData s' = Some movie' \<and> appState s' = appState s \<and> error s' = error s"
  using assms
  by (auto simp: stage_voiceLines_def Let_def foldl_log_fields addLog_fields
      split: if_splits sum.splits)

lemma stage_voiceLines_only_cast:
  assumes "\<forall>k c. voiceActor c \<noteq> None \<longrightarrow> g k c = generateCharacterVoiceLine env k c"
  shows "stage_voiceLines (env\<lparr>generateCharacterVoiceLine := g\<rparr>) movie s =
         stage_voiceLines env movie s"
proof -
  let ?filt = "filter (\<lambda>c. voiceActor c \<noteq> None) (characters movie)"
  have "map (voiceLineCall (env\<lparr>generateCharacterVoiceLine := g\<rparr>))
            (zip ?filt [0 ..< length ?filt]) =
        map (voiceLineCall env) (zip ?filt [0 ..< length ?filt])"
  proof (rule map_cong [OF refl])
    fix x assume "x \<in> set (zip ?filt [0 ..< length ?filt])"
    then have "(fst x, snd x) \<in> set (zip ?filt [0 ..< length ?filt])" by simp
    then have "fst x \<in> set ?filt" by (rule set_zip_leftD)
    then have "voiceActor (fst x) \<noteq> None" by simp
    with assms show "voiceLineCall (env\<lparr>generateCharacterVoiceLine := g\<rparr>) x = voiceLineCall env x"
      by (cases x) (simp add: voiceLineCall_def)
  qed
  then show ?thesis
    unfolding stage_voiceLines_def Let_def by (simp only:)
qed

text \<open>The stage as a whole, on a document whose character ids are unique.\<close>

lemma voice_lines_stage:
  assumes ids: "distinct (map char_id (characters movie))"
  shows "(\<forall>g. (\<forall>k c. voiceActor c \<noteq> None \<longrightarrow> g k c = generateCharacterVoiceLine env k c)
            \<longrightarrow> stage_voiceLines (env\<lparr>generateCharacterVoiceLine := g\<rparr>) movie s
                = stage_voiceLines env movie s)
    \<and> (case stage_voiceLines env movie s of
          Inl (e, s') \<Rightarrow> movieData s' = movieData s
        | Inr (movie', s') \<Rightarrow>
            movie' = movie\<lparr>characters := characters movie'\<rparr>
          \<and> length (characters movie') = length (characters movie)
          \<and> (\<forall>i<length (characters movie).
                (voiceActor (characters movie ! i) = None
                   \<longrightarrow> characters movie' ! i = characters movie ! i)
              \<and> (voiceActor (characters movie ! i) \<noteq> None
                   \<longrightarrow> (\<exists>k line.
                          generateCharacterVoiceLine env k (characters movie ! i) = Inr line
                        \<and> characters movie' ! i
                            = (characters movie ! i)\<lparr>voiceLine := Some line\<rparr>))))"
proof (intro conjI)
  show "\<forall>g. (\<forall>k c. voiceActor c \<noteq> None \<longrightarrow> g k c = generateCharacterVoiceLine env k c)
            \<longrightarrow> stage_voiceLines (env\<lparr>generateCharacterVoiceLine := g\<rparr>) movie s
                = stage_voiceLines env movie s"
    using stage_voiceLines_only_cast by blast
next
  show "case stage_voiceLines env movie s of
          Inl (e, s') \<Rightarrow> movieData s' = movieData s
        | Inr (movie', s') \<Rightarrow>
            movie' = movie\<lparr>characters := characters movie'\<rparr>
          \<and> length (characters movie') = length (characters movie)
          \<and> (\<forall>i<length (characters movie).
                (voiceActor (characters movie ! i) = None
                   \<longrightarrow> characters movie' ! i = characters movie ! i)
              \<and> (voiceActor (characters movie ! i) \<noteq> None
                   \<longrightarrow> (\<exists>k line.
                          generateCharacterVoiceLine env k (characters movie ! i) = Inr line
                        \<and> characters movie' ! i
                            = (characters movie ! i)\<lparr>voiceLine := Some line\<rparr>)))"
  proof (cases "stage_voiceLines env movie s")
    case (Inl thrown)
    then obtain e s' where "stage_voiceLines env movie s = Inl (e, s')" by (cases thrown) simp
    then show ?thesis using stage_voiceLines_thrown by simp
  next
    case (Inr ret)
    then obtain movie' s' where r: "stage_voiceLines env movie s = Inr (movie', s')"
      by (cases ret) simp
    note facts = stage_voiceLines_returned [OF r ids]
    show ?thesis
      unfolding r sum.case prod.case
      using facts by blast
  qed
qed

section \<open>Runs that the analyzer rejects\<close>

lemmas run_defs =
  onGenerate_def handleGenerate_def generatePreProductionAssets_def
  generatePreProductionAssets_try_def stage_start_def stage_analysis_def stage_document_def
  stage_casting_def stage_voiceLines_def stage_characterVisuals_def stage_storyboard_def
  referenceFileOf_def truthy_def analyzeScript_def fileToImagePart_def reportFailure_def messageOf_def
  voiceLineCall_def addLog_def initialApp_def withCharacterIds_def withSceneIds_def
  orDefault_def toLowerCase_def lowerOf_def digitChar_def numberToString_def decimal_digit
  Let_def

lemma startsWith_append: "startsWith (t @ r) t"
  by (induction t) simp_all

lemma includesStr_append: "includesStr (a @ t @ r) t"
proof (induction a)
  case Nil
  show ?case
    using startsWith_append [of t r] by (cases "t @ r") (auto simp: neq_Nil_conv)
next
  case (Cons c a)
  then show ?case by simp
qed

lemma analyzer_demo_mode_accepts:
  "IS_DEMO_MODE env \<Longrightarrow> \<exists>a. analyzeScript env sc = Inr a"
  by (simp add: analyzeScript_def)

lemma analyzer_rejects_marker:
  "\<not> IS_DEMO_MODE env \<Longrightarrow> includesStr (toLowerCase sc) ''error'' \<Longrightarrow>
   analyzeScript env sc = Inl (JsError ''Script contains invalid content.'')"
  by (simp add: analyzeScript_def)

lemma analyzer_rejects_nothing_found:
  "\<not> IS_DEMO_MODE env \<Longrightarrow> \<not> includesStr (toLowerCase sc) ''error'' \<Longrightarrow>
   generateContent_analysis env sc = Inr parsed \<Longrightarrow>
   json_characters parsed = None \<or> json_characters parsed = Some []
     \<or> json_scenes parsed = None \<or> json_scenes parsed = Some [] \<Longrightarrow>
   analyzeScript env sc =
     Inl (JsError ''AI could not identify characters and scenes. Please check the script format.'')"
  by (auto simp: analyzeScript_def split: option.splits)

text \<open>
  What a run leaves when the analyzer rejects: no document, status \<open>ERROR\<close>, and a
  message that names the stage captured by the closure.
\<close>

lemma analyzer_rejection_report:
  assumes "analyzeScript env sc = Inl e"
  shows "\<exists>s'. handleGenerate env capturedStage sc imageFile videoFile hq ms s = Inr s'
     \<and> movieData s' = None \<and> appState s' = ERROR
     \<and> error s' = Some (''Failure during '' @ getStageFriendlyName capturedStage
                         @ ''. Details: '' @ messageOf e ''An unknown error occurred.'')"
  using assms
  by (simp add: handleGenerate_def generatePreProductionAssets_def
        generatePreProductionAssets_try_def stage_analysis_def stage_start_def Let_def
        reportFailure_def addLog_def)

lemma analyzer_rejection_first_run:
  assumes "analyzeScript env sc = Inl e"
  shows "\<exists>s' message. onGenerate env sc imageFile videoFile hq ms initialApp = Inr s'
     \<and> movieData s' = None \<and> appState s' = ERROR \<and> error s' = Some message
     \<and> includesStr message ''Script Analysis''"
proof -
  have ps: "processingStage initialApp = ANALYZING_SCRIPT"
    by (simp add: initialApp_def)
  from analyzer_rejection_report [OF assms, of ANALYZING_SCRIPT imageFile videoFile hq ms initialApp]
  show ?thesis
    unfolding onGenerate_def ps
    using includesStr_append [of "''Failure during ''" "''Script Analysis''"]
    by auto
qed

lemma firstRun_reaches_review:
  "\<exists>s. onGenerate liveEnv ''INT. BRIDGE'' None None False ''Cinematic'' initialApp = Inr s
     \<and> appState s = REVIEW \<and> processingStage s = GENERATING_STORYBOARD \<and> movieData s \<noteq> None"
  by (simp add: run_defs liveEnv_def mockActors_def)

lemma foldl_addLog_state:
  "foldl (\<lambda>st message. addLog message st) s messages =
     s\<lparr>processingLog := processingLog s @ messages\<rparr>"
  by (induction messages arbitrary: s) (simp_all add: addLog_def)

lemma addLog_stage: "processingStage (addLog message s) = processingStage s"
  by (simp add: addLog_def)

lemma render_completes:
  assumes "movieData s = Some m" and "renderInVideoVideo env m = (progress, Inr url)"
  shows "\<exists>s'. onRenderVideo env s = Inr s' \<and> appState s' = COMPLETE
           \<and> processingStage s' = RENDERING_VIDEO"
  using assms
  by (simp add: onRenderVideo_def handleRenderVideo_def Let_def foldl_addLog_state addLog_fields
        addLog_stage)

lemma firstRunRendered_state:
  "\<exists>s. firstRunRendered = Inr s \<and> appState s = COMPLETE \<and> processingStage s = RENDERING_VIDEO"
proof -
  from firstRun_reaches_review obtain s m where
    s: "onGenerate liveEnv ''INT. BRIDGE'' None None False ''Cinematic'' initialApp = Inr s"
      "movieData s = Some m"
    by auto
  have "renderInVideoVideo liveEnv m = ([], Inr ''final-video'')"
    by (simp add: liveEnv_def)
  from render_completes [OF s(2) this] show ?thesis
    by (simp add: firstRunRendered_def andThen_def s(1))
qed

text \<open>
  C7 at the failing input.  In the session \<open>secondRunRejected\<close> the analyzer rejects the
  second script (it contains the marker, in capitals); the run ends with no document and
  status \<open>ERROR\<close>, as claimed, but the message names the stage the closure captured
  when the run was started, the render of the first run, and does not contain
  "Script Analysis".
\<close>

theorem analyzer_failure_after_reset:
  "analyzeScript liveEnv ''A Terror on the Bridge'' = Inl (JsError ''Script contains invalid content.'')
   \<and> (case secondRunRejected of
        Inl thrown \<Rightarrow> False
      | Inr s \<Rightarrow> movieData s = None \<and> appState s = ERROR
          \<and> error s = Some ''Failure during Video Rendering. Details: Script contains invalid content.'')
   \<and> \<not> includesStr ''Failure during Video Rendering. Details: Script contains invalid content.''
          ''Script Analysis''"
proof -
  have rej: "analyzeScript liveEnv ''A Terror on the Bridge''
      = Inl (JsError ''Script contains invalid content.'')"
    by (rule analyzer_rejects_marker) (simp_all add: liveEnv_def toLowerCase_def lowerOf_def)
  from firstRunRendered_state obtain s2 where
    s2: "firstRunRendered = Inr s2" "processingStage s2 = RENDERING_VIDEO" by blast
  have ps: "processingStage (handleReset s2) = RENDERING_VIDEO"
    by (simp add: handleReset_def s2)
  from analyzer_rejection_report [OF rej, of RENDERING_VIDEO None None False "''Cinematic''"
      "handleReset s2"]
  have run: "case secondRunRejected of
        Inl thrown \<Rightarrow> False
      | Inr s \<Rightarrow> movieData s = None \<and> appState s = ERROR
          \<and> error s = Some ''Failure during Video Rendering. Details: Script contains invalid content.''"
    by (auto simp: secondRunRejected_def andThen_def s2 onGenerate_def ps messageOf_def)
  have "\<not> includesStr ''Failure during Video Rendering. Details: Script contains invalid content.''
          ''Script Analysis''"
    by simp
  with rej run show ?thesis by blast
qed

section \<open>The reference file and the style stage\<close>

lemma reference_image_only: "referenceFileOf (Some img) None = None"
  by (simp add: referenceFileOf_def truthy_def)

lemma reference_image_and_video: "referenceFileOf (Some img) (Some vid) = Some vid"
  by (simp add: referenceFileOf_def truthy_def)

lemma reference_video_only:
  "referenceFileOf None (Some vid) =
     (if startsWith (file_type vid) ''image/'' then Some vid else None)"
  by (simp add: referenceFileOf_def truthy_def)

text \<open>
  With a video as only reference (a file whose type is not an image type) the style
  analysis is skipped with a log line, and the analysis goes on without a style.
\<close>

lemma video_only_skips_style_analysis:
  assumes "\<not> startsWith (file_type vid) ''image/''" and "analyzeScript env sc = Inr a"
  shows "\<exists>s'. stage_analysis env sc None (Some vid) s = Inr ((a, None, None), s')
     \<and> last (processingLog s')
         = ''Video style analysis is not yet supported. The video file will be ignored.''
     \<and> hasVisualReference s' = hasVisualReference s"
  using assms
  by (simp add: stage_analysis_def reference_video_only Let_def addLog_def)

text \<open>
  C4 at the failing input.  With an image as the only reference, the reference file
  computed by the run is the (absent) video: the style stage does not run, although the file
  can be read and the style collaborator would describe it; the run reaches review with no
  style descriptor, no inspiration image and the visual-reference flag unset.  With an
  image and a video, the file analyzed is the video.
\<close>

theorem image_reference_skips_style_analysis:
  "referenceFileOf (Some pngFile) None = None
   \<and> fileToImagePart liveEnv pngFile = Inr \<lparr>inline_data = Some ''AAAA'', mimeType = ''image/png''\<rparr>
   \<and> analyzeImageStyle liveEnv \<lparr>inline_data = Some ''AAAA'', mimeType = ''image/png''\<rparr> = Inr ''noir''
   \<and> (case onGenerate liveEnv ''INT. BRIDGE'' (Some pngFile) None False ''Cinematic'' initialApp of
        Inl thrown \<Rightarrow> False
      | Inr s \<Rightarrow> appState s = REVIEW \<and> hasVisualReference s = False
          \<and> map_option stylePrompt (movieData s) = Some None
          \<and> map_option inspirationImagePart (movieData s) = Some None
          \<and> ''Processing visual reference...'' \<notin> set (processingLog s))
   \<and> referenceFileOf (Some pngFile) (Some mp4File) = Some mp4File"
proof -
  have a: "fileToImagePart liveEnv pngFile = Inr \<lparr>inline_data = Some ''AAAA'', mimeType = ''image/png''\<rparr>"
    by (simp add: fileToImagePart_def liveEnv_def pngFile_def Let_def)
  have b: "analyzeImageStyle liveEnv \<lparr>inline_data = Some ''AAAA'', mimeType = ''image/png''\<rparr> = Inr ''noir''"
    by (simp add: liveEnv_def)
  have c: "case onGenerate liveEnv ''INT. BRIDGE'' (Some pngFile) None False ''Cinematic'' initialApp of
        Inl thrown \<Rightarrow> False
      | Inr s \<Rightarrow> appState s = REVIEW \<and> hasVisualReference s = False
          \<and> map_option stylePrompt (movieData s) = Some None
          \<and> map_option inspirationImagePart (movieData s) = Some None
          \<and> ''Processing visual reference...'' \<notin> set (processingLog s)"
    by (simp add: run_defs liveEnv_def mockActors_def pngFile_def)
  from a b c reference_image_only reference_image_and_video show ?thesis by simp
qed

section \<open>A rejected voice-line call\<close>

lemma promiseAll_rejects: "Inl e \<in> set rs \<Longrightarrow> \<exists>e'. promiseAll rs = Inl e'"
proof (induction rs)
  case Nil
  then show ?case by simp
next
  case (Cons r rs)
  then show ?case
    by (cases r) (auto split: sum.splits)
qed

text \<open>
  One rejected call makes the whole voice-line stage throw, whatever the other calls
  return; the run's \<open>catch\<close> block then sets the status to \<open>ERROR\<close>.
\<close>

lemma voice_stage_throws:
  assumes "j < length (filter (\<lambda>c. voiceActor c \<noteq> None) (characters movie))"
    and "generateCharacterVoiceLine env j (filter (\<lambda>c. voiceActor c \<noteq> None) (characters movie) ! j)
           = Inl e"
  shows "\<exists>e' s'. stage_voiceLines env movie s = Inl (e', s')"
proof -
  let ?filt = "filter (\<lambda>c. voiceActor c \<noteq> None) (characters movie)"
  let ?rs = "map (voiceLineCall env) (zip ?filt [0 ..< length ?filt])"
  have "?rs ! j = Inl e"
    using assms by (simp add: voiceLineCall_def)
  moreover have "j < length ?rs" using assms(1) by simp
  ultimately have "Inl e \<in> set ?rs" by (metis nth_mem)
  then obtain e' where "promiseAll ?rs = Inl e'"
    using promiseAll_rejects by blast
  moreover have "0 < length ?filt" using assms(1) by (cases ?filt) simp_all
  ultimately show ?thesis
    unfolding stage_voiceLines_def Let_def by (simp only: if_True sum.case) blast
qed

lemma thrown_run_is_error:
  assumes "generatePreProductionAssets_try env sc imageFile videoFile hq ms s = Inl (e, s1)"
  shows "\<exists>s'. generatePreProductionAssets env capturedStage sc imageFile videoFile hq ms s = Inr s'
     \<and> appState s' = ERROR \<and> movieData s' = movieData s1"
  using assms
  by (simp add: generatePreProductionAssets_def reportFailure_def Let_def addLog_def)

text \<open>
  C3 at the failing input.  Outside demo mode, with two cast characters, the voice-line
  call for the first rejects and the call for the second succeeds (its log line is
  written): the run ends with status \<open>ERROR\<close> and an error message, and neither
  character has a voice line in the document.
\<close>

theorem voice_line_failure_aborts_run:
  "(case onGenerate flakyVoiceEnv ''INT. BRIDGE'' None None False ''Cinematic'' initialApp of
      Inl thrown \<Rightarrow> False
    | Inr s \<Rightarrow> appState s = ERROR
        \<and> error s = Some ''Failure during Script Analysis. Details: 503''
        \<and> map_option (map char_name \<circ> characters) (movieData s) = Some [''Ann'', ''Bob'']
        \<and> map_option (map voiceActor \<circ> characters) (movieData s)
            = Some [Some (mockActors ! 0), Some (mockActors ! 0)]
        \<and> map_option (map voiceLine \<circ> characters) (movieData s) = Some [None, None]
        \<and> ''Generated voice line for Bob.'' \<in> set (processingLog s)
        \<and> ''Generated voice line for Ann.'' \<notin> set (processingLog s))"
  by (simp add: run_defs flakyVoiceEnv_def liveEnv_def)

section \<open>The run as a whole\<close>

lemma stage_start_document: "movieData (stage_start env hq s) = movieData s"
  by (simp add: stage_start_def Let_def addLog_fields)

lemma reportFailure_document: "movieData (reportFailure capturedStage e s) = movieData s"
  by (simp add: reportFailure_def Let_def addLog_fields)

lemma stage_analysis_thrown:
  "stage_analysis env sc imageFile videoFile s = Inl (e, s1) \<Longrightarrow> movieData s1 = movieData s"
  by (auto simp: stage_analysis_def Let_def addLog_fields split: sum.splits option.splits if_splits)

lemma stage_analysis_returned:
  "stage_analysis env sc imageFile videoFile s = Inr ((a, part, st), s1) \<Longrightarrow>
   analyzeScript env sc = Inr a \<and> movieData s1 = movieData s"
  by (auto simp: stage_analysis_def Let_def addLog_fields split: sum.splits option.splits if_splits)

lemma stage_document_facts:
  "characters (fst (stage_document env a sc ms part st q s)) = analysis_characters a"
  "stylePrompt (fst (stage_document env a sc ms part st q s)) = st"
  "quality (fst (stage_document env a sc ms part st q s)) = q"
  "movieData (snd (stage_document env a sc ms part st q s)) =
     Some (fst (stage_document env a sc ms part st q s))"
  by (simp_all add: stage_document_def Let_def addLog_fields)

lemma foldl_cast_log_document:
  "movieData (foldl (\<lambda>st c. case f c of Some actor \<Rightarrow> addLog (g actor c) st | None \<Rightarrow> st) s cs)
     = movieData s"
  by (induction cs arbitrary: s) (simp_all add: addLog_fields split: option.split)

lemma stage_casting_characters:
  "characters (fst (stage_casting env movie s)) =
     map (\<lambda>c. case map_of (matchVoiceActors env (characters movie)) (char_name c) of
                Some actor \<Rightarrow> c\<lparr>voiceActor := Some actor\<rparr>
              | None \<Rightarrow> c)
       (characters movie)"
  by (cases "matchVoiceActors env (characters movie)")
     (simp_all add: stage_casting_def Let_def)

lemma stage_casting_rest:
  "stylePrompt (fst (stage_casting env movie s)) = stylePrompt movie"
  "quality (fst (stage_casting env movie s)) = quality movie"
  by (simp_all add: stage_casting_def Let_def)

lemma stage_casting_document:
  "movieData s = Some movie \<Longrightarrow>
   movieData (snd (stage_casting env movie s)) = Some (fst (stage_casting env movie s))"
  by (simp add: stage_casting_def Let_def addLog_fields foldl_cast_log_document)

text \<open>What the analyzer returns: characters without image, voice actor or voice line.\<close>

lemma analysis_characters_fresh:
  assumes "analyzeScript env sc = Inr a" and "c \<in> set (analysis_characters a)"
  shows "imageUrl c = [] \<and> voiceActor c = None \<and> voiceLine c = None"
proof -
  have "\<forall>c\<in>set (withCharacterIds uuid cs). imageUrl c = [] \<and> voiceActor c = None \<and> voiceLine c = None"
    for uuid cs
    by (auto simp: withCharacterIds_def)
  with assms show ?thesis
    by (auto simp: analyzeScript_def split: if_splits sum.splits option.splits)
qed

lemma casting_keeps_fresh:
  assumes "\<forall>c\<in>set (characters movie). imageUrl c = [] \<and> voiceLine c = None"
    and "c \<in> set (characters (fst (stage_casting env movie s)))"
  shows "imageUrl c = [] \<and> voiceLine c = None"
  using assms by (auto simp: stage_casting_characters split: option.splits)

lemma casting_keeps_ids:
  "map char_id (characters (fst (stage_casting env movie s))) = map char_id (characters movie)"
  by (simp add: stage_casting_characters) (simp split: option.split)

lemma storyboardLoop_state:
  "snd (storyboardLoop env st q k scs acc s) =
     s\<lparr>processingLog := processingLog (snd (storyboardLoop env st q k scs acc s))\<rparr>"
proof (induction scs arbitrary: k acc s)
  case Nil
  then show ?case by simp
next
  case (Cons sc scs)
  show ?case
  proof (cases "generateStoryboardVideo env k (scene_description sc) st q")
    case (Inl e)
    then show ?thesis
      using Cons.IH [of "Suc k" "acc @ [sc]"
          "addLog (''Failed to generate storyboard for Scene ''
                      @ numberToString (sceneNumber sc) @ ''. Error: ''
                      @ messageOf e ''Unknown error'') s"]
      by (simp add: addLog_def)
  next
    case (Inr url)
    then show ?thesis
      using Cons.IH [of "Suc k" "acc @ [sc\<lparr>storyboardVideoUrl := url\<rparr>]"
          "addLog (''Animated storyboard for Scene '' @ numberToString (sceneNumber sc)
                      @ '' created.'') s"]
      by (simp add: addLog_def)
  qed
qed

lemma stage_storyboard_facts:
  "characters (fst (stage_storyboard env st q movie s)) = characters movie"
  "stylePrompt (fst (stage_storyboard env st q movie s)) = stylePrompt movie"
  "quality (fst (stage_storyboard env st q movie s)) = quality movie"
  "movieData (snd (stage_storyboard env st q movie s)) = Some (fst (stage_storyboard env st q movie s))"
  by (simp_all add: stage_storyboard_def Let_def case_prod_beta addLog_fields)

lemma stage_storyboard_status:
  "appState (snd (stage_storyboard env st q movie s)) = appState s"
  "error (snd (stage_storyboard env st q movie s)) = error s"
proof -
  let ?s1 = "addLog ''Generating animated storyboard (one scene at a time to respect API limits)...''
                 (s\<lparr>processingStage := GENERATING_STORYBOARD\<rparr>)"
  let ?L = "storyboardLoop env st q 0 (scenes movie) [] ?s1"
  have "appState (snd ?L) = appState ?s1" "error (snd ?L) = error ?s1"
    by (subst storyboardLoop_state, simp)+
  then show "appState (snd (stage_storyboard env st q movie s)) = appState s"
    "error (snd (stage_storyboard env st q movie s)) = error s"
    by (simp_all add: stage_storyboard_def Let_def case_prod_beta addLog_def)
qed

text \<open>
  The run as a whole.  Started without a document (as \<open>handleGenerate\<close> starts it) and
  with an analyzer whose character ids are unique, whatever the collaborators do, the
  run settles in a state whose document, if there is one, gives a voice line only to
  characters that have a voice actor.
\<close>

lemma run_voice_lines_need_actor:
  assumes ids: "\<And>a. analyzeScript env sc = Inr a \<Longrightarrow> distinct (map char_id (analysis_characters a))"
    and start: "movieData s = None"
    and run: "generatePreProductionAssets env capturedStage sc imageFile videoFile hq ms s = Inr s'"
    and doc: "movieData s' = Some m'"
    and c: "c \<in> set (characters m')"
    and actor: "voiceActor c = None"
  shows "voiceLine c = None"
proof -
  let ?q = "if hq then high else standard"
  let ?s0 = "stage_start env hq s"
  show ?thesis
  proof (cases "stage_analysis env sc imageFile videoFile ?s0")
    case (Inl thrown)
    obtain e s1 where t: "thrown = (e, s1)" by (cases thrown)
    have "generatePreProductionAssets_try env sc imageFile videoFile hq ms s = Inl (e, s1)"
      by (simp add: generatePreProductionAssets_try_def Let_def Inl t)
    with run have "s' = reportFailure capturedStage e s1"
      by (simp add: generatePreProductionAssets_def)
    moreover have "movieData s1 = None"
      using stage_analysis_thrown [of env sc imageFile videoFile ?s0 e s1] Inl t start
      by (simp add: stage_start_document)
    ultimately show ?thesis using doc by (simp add: reportFailure_document)
  next
    case (Inr ret)
    obtain a part st s1 where r: "ret = ((a, part, st), s1)" by (cases ret) auto
    from stage_analysis_returned [of env sc imageFile videoFile ?s0 a part st s1] Inr r
    have an: "analyzeScript env sc = Inr a" by simp
    let ?d = "stage_document env a sc ms part st ?q s1"
    let ?c = "stage_casting env (fst ?d) (snd ?d)"
    have fresh: "\<forall>x\<in>set (characters (fst ?c)). imageUrl x = [] \<and> voiceLine x = None"
    proof
      fix x assume x: "x \<in> set (characters (fst ?c))"
      have "\<forall>y\<in>set (characters (fst ?d)). imageUrl y = [] \<and> voiceLine y = None"
        using analysis_characters_fresh [OF an] by (simp add: stage_document_facts)
      from casting_keeps_fresh [OF this x] show "imageUrl x = [] \<and> voiceLine x = None" .
    qed
    have cdoc: "movieData (snd ?c) = Some (fst ?c)"
      by (rule stage_casting_document) (rule stage_document_facts)
    have cids: "distinct (map char_id (characters (fst ?c)))"
      using ids [OF an] by (simp add: casting_keeps_ids stage_document_facts)
    show ?thesis
    proof (cases "stage_voiceLines env (fst ?c) (snd ?c)")
      case (Inl thrown)
      obtain e s4 where t: "thrown = (e, s4)" by (cases thrown)
      have "generatePreProductionAssets_try env sc imageFile videoFile hq ms s = Inl (e, s4)"
        using Inl t
        by (simp add: generatePreProductionAssets_try_def Let_def \<open>stage_analysis env sc imageFile videoFile ?s0 = Inr ret\<close> r
              case_prod_beta)
      with run have "s' = reportFailure capturedStage e s4"
        by (simp add: generatePreProductionAssets_def)
      moreover have "movieData s4 = Some (fst ?c)"
        using stage_voiceLines_thrown [of env "fst ?c" "snd ?c" e s4] Inl t cdoc by simp
      ultimately have "m' = fst ?c" using doc by (simp add: reportFailure_document)
      with fresh c show ?thesis by blast
    next
      case (Inr ret2)
      obtain movie3 s4 where r2: "ret2 = (movie3, s4)" by (cases ret2)
      let ?v = "stage_characterVisuals env st ?q movie3 s4"
      let ?b = "stage_storyboard env st ?q (fst ?v) (snd ?v)"
      have "generatePreProductionAssets_try env sc imageFile videoFile hq ms s =
          Inr ((addLog ''Pre-production complete. Ready to render the final movie.'' (snd ?b))
                 \<lparr>appState := REVIEW\<rparr>)"
        using Inr r2
        by (simp add: generatePreProductionAssets_try_def Let_def \<open>stage_analysis env sc imageFile videoFile ?s0 = Inr ret\<close> r
              case_prod_beta)
      with run have "movieData s' = movieData (snd ?b)"
        by (auto simp: generatePreProductionAssets_def addLog_fields)
      with doc have m': "m' = fst ?b" by (simp add: stage_storyboard_facts)
      then have "characters m' = characters (fst ?v)" by (simp add: stage_storyboard_facts)
      with c obtain i where i: "i < length (characters movie3)" "c = characters (fst ?v) ! i"
        by (metis in_set_conv_nth stage_characterVisuals_characters(1))
      note vl = stage_voiceLines_returned [OF Inr [unfolded r2] cids]
      have same: "voiceActor c = voiceActor (characters movie3 ! i)
          \<and> voiceLine c = voiceLine (characters movie3 ! i)"
        using stage_characterVisuals_characters(2) [OF i(1), of env st ?q s4] i(2)
        by (auto split: sum.splits)
      from i(1) vl(2) have i2: "i < length (characters (fst ?c))" by simp
      show ?thesis
      proof (cases "voiceActor (characters (fst ?c) ! i) = None")
        case True
        with vl(3) [OF i2] have "characters movie3 ! i = characters (fst ?c) ! i" by simp
        moreover have "voiceLine (characters (fst ?c) ! i) = None"
          using fresh i2 by simp
        ultimately show ?thesis using same by simp
      next
        case False
        with vl(4) [OF i2] obtain line where
          "characters movie3 ! i = (characters (fst ?c) ! i)\<lparr>voiceLine := Some line\<rparr>" by blast
        with False same actor show ?thesis by simp
      qed
    qed
  qed
qed

text \<open>The stages before the character visuals do not consult the image collaborator.\<close>

lemma services_ignore_images:
  "analyzeScript (env\<lparr>generateCharacterImage := g\<rparr>) sc = analyzeScript env sc"
  "fileToImagePart (env\<lparr>generateCharacterImage := g\<rparr>) file = fileToImagePart env file"
  "voiceLineCall (env\<lparr>generateCharacterImage := g\<rparr>) = voiceLineCall env"
  by (simp_all add: analyzeScript_def fileToImagePart_def voiceLineCall_def
        cong: sum.case_cong option.case_cong if_cong prod.case_cong)

lemma early_stages_ignore_images:
  "stage_start (env\<lparr>generateCharacterImage := g\<rparr>) hq s = stage_start env hq s"
  "stage_analysis (env\<lparr>generateCharacterImage := g\<rparr>) sc imageFile videoFile s
     = stage_analysis env sc imageFile videoFile s"
  "stage_document (env\<lparr>generateCharacterImage := g\<rparr>) a sc ms part st q s
     = stage_document env a sc ms part st q s"
  "stage_casting (env\<lparr>generateCharacterImage := g\<rparr>) movie s = stage_casting env movie s"
  "stage_voiceLines (env\<lparr>generateCharacterImage := g\<rparr>) movie s = stage_voiceLines env movie s"
  by (simp_all add: stage_start_def stage_analysis_def stage_document_def stage_casting_def
        stage_voiceLines_def services_ignore_images
        cong: sum.case_cong option.case_cong if_cong)

lemma run_abort_ignores_images:
  "isl (generatePreProductionAssets_try (env\<lparr>generateCharacterImage := g\<rparr>) sc imageFile
          videoFile hq ms s)
   = isl (generatePreProductionAssets_try env sc imageFile videoFile hq ms s)"
  by (simp add: generatePreProductionAssets_try_def early_stages_ignore_images Let_def
        case_prod_beta split: sum.split)

text \<open>
  A run that is not aborted ends in review with a document in which every character has
  the image its own call returned, or no image when that call failed.
\<close>

lemma run_images:
  assumes ids: "\<And>a. analyzeScript env sc = Inr a \<Longrightarrow> distinct (map char_id (analysis_characters a))"
    and run: "generatePreProductionAssets_try env sc imageFile videoFile hq ms s = Inr s'"
  shows "appState s' = REVIEW
    \<and> (\<exists>m'. movieData s' = Some m'
          \<and> (\<forall>i<length (characters m').
                imageUrl (characters m' ! i) =
                  (case generateCharacterImage env i (char_description (characters m' ! i))
                          (stylePrompt m') (quality m') of
                     Inr url \<Rightarrow> url
                   | Inl e \<Rightarrow> [])))"
proof -
  let ?q = "if hq then high else standard"
  let ?s0 = "stage_start env hq s"
  from run obtain ret where an0: "stage_analysis env sc imageFile videoFile ?s0 = Inr ret"
    by (cases "stage_analysis env sc imageFile videoFile ?s0")
       (simp_all add: generatePreProductionAssets_try_def Let_def)
  obtain a part st s1 where r: "ret = ((a, part, st), s1)" by (cases ret) auto
  from stage_analysis_returned [of env sc imageFile videoFile ?s0 a part st s1] an0 r
  have an: "analyzeScript env sc = Inr a" by simp
  let ?d = "stage_document env a sc ms part st ?q s1"
  let ?c = "stage_casting env (fst ?d) (snd ?d)"
  have fresh: "\<forall>x\<in>set (characters (fst ?c)). imageUrl x = [] \<and> voiceLine x = None"
  proof
    fix x assume x: "x \<in> set (characters (fst ?c))"
    have "\<forall>y\<in>set (characters (fst ?d)). imageUrl y = [] \<and> voiceLine y = None"
      using analysis_characters_fresh [OF an] by (simp add: stage_document_facts)
    from casting_keeps_fresh [OF this x] show "imageUrl x = [] \<and> voiceLine x = None" .
  qed
  have cids: "distinct (map char_id (characters (fst ?c)))"
    using ids [OF an] by (simp add: casting_keeps_ids stage_document_facts)
  have cst: "stylePrompt (fst ?c) = st" "quality (fst ?c) = ?q"
    by (simp_all add: stage_casting_rest stage_document_facts)
  from run an0 r obtain ret2 where vl0: "stage_voiceLines env (fst ?c) (snd ?c) = Inr ret2"
    by (cases "stage_voiceLines env (fst ?c) (snd ?c)")
       (simp_all add: generatePreProductionAssets_try_def Let_def case_prod_beta)
  obtain movie3 s4 where r2: "ret2 = (movie3, s4)" by (cases ret2)
  let ?v = "stage_characterVisuals env st ?q movie3 s4"
  let ?b = "stage_storyboard env st ?q (fst ?v) (snd ?v)"
  from run an0 r vl0 r2
  have s': "s' = (addLog ''Pre-production complete. Ready to render the final movie.'' (snd ?b))
                 \<lparr>appState := REVIEW\<rparr>"
    by (simp add: generatePreProductionAssets_try_def Let_def case_prod_beta)
  note vl = stage_voiceLines_returned [OF vl0 [unfolded r2] cids]
  have m3: "stylePrompt movie3 = st" "quality movie3 = ?q"
    using vl(1) cst by (metis Movie.select_convs(9) Movie.surjective Movie.update_convs(4),
        metis Movie.select_convs(10) Movie.surjective Movie.update_convs(4))
  have v_rest: "stylePrompt (fst ?v) = st" "quality (fst ?v) = ?q"
    using stage_characterVisuals_rest [of env st ?q movie3 s4] m3
    by (metis Movie.select_convs(9) Movie.surjective Movie.update_convs(4),
        metis Movie.select_convs(10) Movie.surjective Movie.update_convs(4))
  have doc: "movieData s' = Some (fst ?b)"
    by (simp add: s' addLog_fields stage_storyboard_facts)
  have img3: "imageUrl (characters movie3 ! i) = []" if i: "i < length (characters movie3)" for i
  proof -
    from i vl(2) have i2: "i < length (characters (fst ?c))" by simp
    then have f: "imageUrl (characters (fst ?c) ! i) = []" using fresh by simp
    show ?thesis
    proof (cases "voiceActor (characters (fst ?c) ! i) = None")
      case True
      with vl(3) [OF i2] f show ?thesis by simp
    next
      case False
      with vl(4) [OF i2] obtain line where
        "characters movie3 ! i = (characters (fst ?c) ! i)\<lparr>voiceLine := Some line\<rparr>" by blast
      with f show ?thesis by simp
    qed
  qed
  have "imageUrl (characters (fst ?b) ! i) =
          (case generateCharacterImage env i (char_description (characters (fst ?b) ! i))
                  (stylePrompt (fst ?b)) (quality (fst ?b)) of
             Inr url \<Rightarrow> url | Inl e \<Rightarrow> [])"
    if i: "i < length (characters (fst ?b))" for i
  proof -
    from i have i3: "i < length (characters movie3)"
      by (simp add: stage_storyboard_facts stage_characterVisuals_characters(1))
    show ?thesis
      using stage_characterVisuals_characters(2) [OF i3, of env st ?q s4] img3 [OF i3]
      by (simp add: stage_storyboard_facts v_rest split: sum.splits)
  qed
  with doc show ?thesis by (simp add: s')
qed

section \<open>Per-item failures and the run\<close>

text \<open>
  C8.  The character-visual stage attempts every character, in list order, whatever
  happened to the earlier ones: the character at index \<open>i\<close> gets the reference returned by
  the \<open>i\<close>-th call when that call succeeds and keeps its entry as it was when the call
  fails; the stage has no exceptional exit, writes the resulting document, and leaves
  status and error message as they were.  Whether a run is aborted does not depend on the
  image collaborator.  In a run that is not aborted (the analyzer's character ids being
  unique) the status becomes \<open>REVIEW\<close> and every character of the document has the image
  its own call returned, or the empty reference when that call failed.
\<close>

theorem character_visual_failures_isolated:
  "(case stage_characterVisuals env st q movie s of
      (movie', s') \<Rightarrow>
         movie' = movie\<lparr>characters := characters movie'\<rparr>
       \<and> movieData s' = Some movie' \<and> appState s' = appState s \<and> error s' = error s
       \<and> length (characters movie') = length (characters movie)
       \<and> (\<forall>i<length (characters movie).
             characters movie' ! i =
               (case generateCharacterImage env i (char_description (characters movie ! i)) st q of
                  Inr url \<Rightarrow> (characters movie ! i)\<lparr>imageUrl := url\<rparr>
                | Inl e \<Rightarrow> characters movie ! i)))
   \<and> (\<forall>g. isl (generatePreProductionAssets_try (env\<lparr>generateCharacterImage := g\<rparr>) sc
                  imageFile videoFile hq ms initial)
           = isl (generatePreProductionAssets_try env sc imageFile videoFile hq ms initial))
   \<and> ((\<forall>a. analyzeScript env sc = Inr a \<longrightarrow> distinct (map char_id (analysis_characters a)))
        \<and> generatePreProductionAssets_try env sc imageFile videoFile hq ms initial = Inr final
      \<longrightarrow> appState final = REVIEW
        \<and> (\<exists>m'. movieData final = Some m'
              \<and> (\<forall>i<length (characters m').
                    imageUrl (characters m' ! i) =
                      (case generateCharacterImage env i (char_description (characters m' ! i))
                              (stylePrompt m') (quality m') of
                         Inr url \<Rightarrow> url
                       | Inl e \<Rightarrow> []))))"
proof (intro conjI)
  show "case stage_characterVisuals env st q movie s of
      (movie', s') \<Rightarrow>
         movie' = movie\<lparr>characters := characters movie'\<rparr>
       \<and> movieData s' = Some movie' \<and> appState s' = appState s \<and> error s' = error s
       \<and> length (characters movie') = length (characters movie)
       \<and> (\<forall>i<length (characters movie).
             characters movie' ! i =
               (case generateCharacterImage env i (char_description (characters movie ! i)) st q of
                  Inr url \<Rightarrow> (characters movie ! i)\<lparr>imageUrl := url\<rparr>
                | Inl e \<Rightarrow> characters movie ! i))"
    by (rule character_visuals_stage)
next
  show "\<forall>g. isl (generatePreProductionAssets_try (env\<lparr>generateCharacterImage := g\<rparr>) sc
                  imageFile videoFile hq ms initial)
           = isl (generatePreProductionAssets_try env sc imageFile videoFile hq ms initial)"
    by (simp add: run_abort_ignores_images)
next
  show "(\<forall>a. analyzeScript env sc = Inr a \<longrightarrow> distinct (map char_id (analysis_characters a)))
        \<and> generatePreProductionAssets_try env sc imageFile videoFile hq ms initial = Inr final
      \<longrightarrow> appState final = REVIEW
        \<and> (\<exists>m'. movieData final = Some m'
              \<and> (\<forall>i<length (characters m').
                    imageUrl (characters m' ! i) =
                      (case generateCharacterImage env i (char_description (characters m' ! i))
                              (stylePrompt m') (quality m') of
                         Inr url \<Rightarrow> url
                       | Inl e \<Rightarrow> [])))"
  proof
    assume h: "(\<forall>a. analyzeScript env sc = Inr a \<longrightarrow> distinct (map char_id (analysis_characters a)))
        \<and> generatePreProductionAssets_try env sc imageFile videoFile hq ms initial = Inr final"
    then have ids: "\<And>a. analyzeScript env sc = Inr a \<Longrightarrow> distinct (map char_id (analysis_characters a))"
      and run: "generatePreProductionAssets_try env sc imageFile videoFile hq ms initial = Inr final"
      by blast+
    from run_images [OF ids run]
    show "appState final = REVIEW
        \<and> (\<exists>m'. movieData final = Some m'
              \<and> (\<forall>i<length (characters m').
                    imageUrl (characters m' ! i) =
                      (case generateCharacterImage env i (char_description (characters m' ! i))
                              (stylePrompt m') (quality m') of
                         Inr url \<Rightarrow> url
                       | Inl e \<Rightarrow> [])))" .
  qed
qed

text \<open>
  C9.  The voice-line stage, on a document whose character ids are unique: its outcome
  depends on the collaborator only through the calls for characters that have a voice
  actor; when it throws, the document is untouched; when it returns, the document keeps
  every field but the characters, the characters keep their number and order, a character
  without voice actor is returned exactly as it was, and a character with a voice actor
  differs from its former self only in its voice line, which is what the collaborator
  returned for that very character.  And for a whole run (the analyzer's character ids
  being unique), whatever the collaborators do: in the document the run leaves, a
  character without voice actor has no voice line.
\<close>

theorem voice_lines_only_for_cast:
  "(distinct (map char_id (characters movie)) \<longrightarrow>
      (\<forall>g. (\<forall>k c. voiceActor c \<noteq> None \<longrightarrow> g k c = generateCharacterVoiceLine env k c)
            \<longrightarrow> stage_voiceLines (env\<lparr>generateCharacterVoiceLine := g\<rparr>) movie s
                = stage_voiceLines env movie s)
    \<and> (case stage_voiceLines env movie s of
          Inl (e, s') \<Rightarrow> movieData s' = movieData s
        | Inr (movie', s') \<Rightarrow>
            movie' = movie\<lparr>characters := characters movie'\<rparr>
          \<and> length (characters movie') = length (characters movie)
          \<and> (\<forall>i<length (characters movie).
                (voiceActor (characters movie ! i) = None
                   \<longrightarrow> characters movie' ! i = characters movie ! i)
              \<and> (voiceActor (characters movie ! i) \<noteq> None
                   \<longrightarrow> (\<exists>k line.
                          generateCharacterVoiceLine env k (characters movie ! i) = Inr line
                        \<and> characters movie' ! i
                            = (characters movie ! i)\<lparr>voiceLine := Some line\<rparr>)))))
   \<and> ((\<forall>a. analyzeScript env sc = Inr a \<longrightarrow> distinct (map char_id (analysis_characters a)))
        \<and> handleGenerate env capturedStage sc imageFile videoFile hq ms initial = Inr final
        \<and> movieData final = Some m'
      \<longrightarrow> (\<forall>c\<in>set (characters m'). voiceActor c = None \<longrightarrow> voiceLine c = None))"
proof (intro conjI)
  show "distinct (map char_id (characters movie)) \<longrightarrow>
    (\<forall>g. (\<forall>k c. voiceActor c \<noteq> None \<longrightarrow> g k c = generateCharacterVoiceLine env k c)
            \<longrightarrow> stage_voiceLines (env\<lparr>generateCharacterVoiceLine := g\<rparr>) movie s
                = stage_voiceLines env movie s)
    \<and> (case stage_voiceLines env movie s of
          Inl (e, s') \<Rightarrow> movieData s' = movieData s
        | Inr (movie', s') \<Rightarrow>
            movie' = movie\<lparr>characters := characters movie'\<rparr>
          \<and> length (characters movie') = length (characters movie)
          \<and> (\<forall>i<length (characters movie).
                (voiceActor (characters movie ! i) = None
                   \<longrightarrow> characters movie' ! i = characters movie ! i)
              \<and> (voiceActor (characters movie ! i) \<noteq> None
                   \<longrightarrow> (\<exists>k line.
                          generateCharacterVoiceLine env k (characters movie ! i) = Inr line
                        \<and> characters movie' ! i
                            = (characters movie ! i)\<lparr>voiceLine := Some line\<rparr>))))"
    using voice_lines_stage by blast
next
  show "(\<forall>a. analyzeScript env sc = Inr a \<longrightarrow> distinct (map char_id (analysis_characters a)))
        \<and> handleGenerate env capturedStage sc imageFile videoFile hq ms initial = Inr final
        \<and> movieData final = Some m'
      \<longrightarrow> (\<forall>c\<in>set (characters m'). voiceActor c = None \<longrightarrow> voiceLine c = None)"
  proof
  assume h: "(\<forall>a. analyzeScript env sc = Inr a \<longrightarrow> distinct (map char_id (analysis_characters a)))
        \<and> handleGenerate env capturedStage sc imageFile videoFile hq ms initial = Inr final
        \<and> movieData final = Some m'"
  let ?start = "initial\<lparr>appState := PROCESSING, processingStage := ANALYZING_SCRIPT, movieData := None,
          processingLog := [], error := None, sceneSuggestions := []\<rparr>"
  have start: "movieData ?start = None" by simp
  from h have run: "generatePreProductionAssets env capturedStage sc imageFile videoFile hq ms ?start
      = Inr final"
    by (simp add: handleGenerate_def)
  from h have ids: "\<And>a. analyzeScript env sc = Inr a \<Longrightarrow> distinct (map char_id (analysis_characters a))"
    and doc: "movieData final = Some m'" by blast+
  show "\<forall>c\<in>set (characters m'). voiceActor c = None \<longrightarrow> voiceLine c = None"
    using run_voice_lines_need_actor [OF ids start run doc] by blast
  qed
qed

lemma flakyImage_run:
  "\<exists>s1 m'. generatePreProductionAssets_try flakyImageEnv ''INT. BRIDGE'' None None False
               ''Cinematic'' initialApp = Inr s1
     \<and> movieData s1 = Some m'
     \<and> map char_description (characters m') = [''a pilot'', ''a droid'']
     \<and> stylePrompt m' = None \<and> quality m' = standard"
  by (simp add: run_defs flakyImageEnv_def liveEnv_def)

lemma liveEnv_analysis_ids:
  "analyzeScript liveEnv ''INT. BRIDGE'' = Inr a \<Longrightarrow> map char_id (analysis_characters a) = [''uuid-0'', ''uuid-1'']"
  by (auto simp: analyzeScript_def liveEnv_def toLowerCase_def lowerOf_def withCharacterIds_def
        decimal_digit digitChar_def)

theorem character_visual_failures_isolated_witness:
  "generateCharacterImage flakyImageEnv 0 ''a pilot'' None standard = Inl (JsError ''429'')
   \<and> generateCharacterImage flakyImageEnv 1 ''a droid'' None standard = Inr ''image-b''
   \<and> map char_description (characters draftMovie) = [''a pilot'', ''a droid'']
   \<and> characters (fst (stage_characterVisuals flakyImageEnv None standard draftMovie draftApp)) ! 0
       = characters draftMovie ! 0
   \<and> characters (fst (stage_characterVisuals flakyImageEnv None standard draftMovie draftApp)) ! 1
       = (characters draftMovie ! 1)\<lparr>imageUrl := ''image-b''\<rparr>
   \<and> appState (snd (stage_characterVisuals flakyImageEnv None standard draftMovie draftApp))
       = PROCESSING
   \<and> (\<exists>s1 m'. generatePreProductionAssets_try flakyImageEnv ''INT. BRIDGE'' None None False
                 ''Cinematic'' initialApp = Inr s1
         \<and> appState s1 = REVIEW \<and> movieData s1 = Some m'
         \<and> map char_description (characters m') = [''a pilot'', ''a droid'']
         \<and> imageUrl (characters m' ! 0) = [] \<and> imageUrl (characters m' ! 1) = ''image-b'')"
proof -
  have calls:
    "generateCharacterImage flakyImageEnv 0 ''a pilot'' None standard = Inl (JsError ''429'')"
    "generateCharacterImage flakyImageEnv 1 ''a droid'' None standard = Inr ''image-b''"
    by (simp_all add: flakyImageEnv_def)
  have descr: "map char_description (characters draftMovie) = [''a pilot'', ''a droid'']"
    "char_description (characters draftMovie ! 0) = ''a pilot''"
    "char_description (characters draftMovie ! 1) = ''a droid''"
    by (simp_all add: draftMovie_def draftCharacters_def)
  have st: "appState draftApp = PROCESSING"
    by (simp add: draftApp_def)
  have ids: "\<forall>a. analyzeScript flakyImageEnv ''INT. BRIDGE'' = Inr a
      \<longrightarrow> distinct (map char_id (analysis_characters a))"
    using liveEnv_analysis_ids
    by (simp add: flakyImageEnv_def services_ignore_images)
  from flakyImage_run obtain s1 m' where
    run: "generatePreProductionAssets_try flakyImageEnv ''INT. BRIDGE'' None None False
               ''Cinematic'' initialApp = Inr s1"
    and doc: "movieData s1 = Some m'"
    and d: "map char_description (characters m') = [''a pilot'', ''a droid'']"
    and sq: "stylePrompt m' = None" "quality m' = standard"
    by (elim exE conjE) (rule that)
  from d have len: "length (characters m') = 2"
    by (metis length_map length_Cons list.size(3) numeral_2_eq_2)
  from d have d01: "char_description (characters m' ! 0) = ''a pilot''"
    "char_description (characters m' ! 1) = ''a droid''"
    using len by (metis nth_Cons_0 nth_map zero_less_numeral,
        metis One_nat_def nth_Cons_0 nth_Cons_Suc nth_map one_less_numeral_iff semiring_norm(76))
  note inst = character_visual_failures_isolated [where env = flakyImageEnv and st = None
      and q = standard and movie = draftMovie and s = draftApp and sc = "''INT. BRIDGE''"
      and imageFile = None and videoFile = None and hq = False and ms = "''Cinematic''"
      and initial = initialApp and final = s1]
  from inst have stage:
    "appState (snd (stage_characterVisuals flakyImageEnv None standard draftMovie draftApp))
        = appState draftApp
    \<and> (\<forall>i<length (characters draftMovie).
          characters (fst (stage_characterVisuals flakyImageEnv None standard draftMovie draftApp)) ! i =
            (case generateCharacterImage flakyImageEnv i
                    (char_description (characters draftMovie ! i)) None standard of
               Inr url \<Rightarrow> (characters draftMovie ! i)\<lparr>imageUrl := url\<rparr>
             | Inl e \<Rightarrow> characters draftMovie ! i))"
    by (simp add: case_prod_beta)
  from inst ids run have
    "appState s1 = REVIEW
        \<and> (\<exists>m'. movieData s1 = Some m'
              \<and> (\<forall>i<length (characters m').
                    imageUrl (characters m' ! i) =
                      (case generateCharacterImage flakyImageEnv i
                              (char_description (characters m' ! i))
                              (stylePrompt m') (quality m') of
                         Inr url \<Rightarrow> url
                       | Inl e \<Rightarrow> [])))"
    by blast
  with doc have whole: "appState s1 = REVIEW
      \<and> (\<forall>i<length (characters m').
                    imageUrl (characters m' ! i) =
                      (case generateCharacterImage flakyImageEnv i
                              (char_description (characters m' ! i))
                              (stylePrompt m') (quality m') of
                         Inr url \<Rightarrow> url
                       | Inl e \<Rightarrow> []))"
    by simp
  then have imgs: "imageUrl (characters m' ! 0) = []" "imageUrl (characters m' ! 1) = ''image-b''"
    using len d01 sq calls by simp_all
  have s0: "characters (fst (stage_characterVisuals flakyImageEnv None standard draftMovie draftApp)) ! 0
       = characters draftMovie ! 0"
    and s1: "characters (fst (stage_characterVisuals flakyImageEnv None standard draftMovie draftApp)) ! 1
       = (characters draftMovie ! 1)\<lparr>imageUrl := ''image-b''\<rparr>"
    using stage descr calls draftMovie_characters(3) by simp_all
  from stage st have s2: "appState (snd (stage_characterVisuals flakyImageEnv None standard draftMovie draftApp))
       = PROCESSING" by simp
  from whole have rv: "appState s1 = REVIEW" by simp
  have last: "\<exists>s1 m'. generatePreProductionAssets_try flakyImageEnv ''INT. BRIDGE'' None None False
                 ''Cinematic'' initialApp = Inr s1
         \<and> appState s1 = REVIEW \<and> movieData s1 = Some m'
         \<and> map char_description (characters m') = [''a pilot'', ''a droid'']
         \<and> imageUrl (characters m' ! 0) = [] \<and> imageUrl (characters m' ! 1) = ''image-b''"
    by (intro exI conjI) (fact run, fact rv, fact doc, fact d, fact imgs(1), fact imgs(2))
  show ?thesis
    by (intro conjI) (fact calls(1), fact calls(2), fact descr(1), fact s0, fact s1, fact s2,
        fact last)
qed

lemma partialCast_run:
  "\<exists>s1 m'. handleGenerate partialCastEnv ANALYZING_SCRIPT ''INT. BRIDGE'' None None False
               ''Cinematic'' initialApp = Inr s1
     \<and> movieData s1 = Some m'
     \<and> map char_name (characters m') = [''Ann'', ''Bob'']
     \<and> map voiceActor (characters m') = [Some (mockActors ! 0), None]"
  by (simp add: run_defs partialCastEnv_def liveEnv_def)

theorem voice_lines_only_for_cast_witness:
  "distinct (map char_id (characters draftMovie))
   \<and> voiceActor (characters draftMovie ! 0) \<noteq> None
   \<and> voiceActor (characters draftMovie ! 1) = None
   \<and> (\<exists>movie' s'. stage_voiceLines liveEnv draftMovie draftApp = Inr (movie', s')
         \<and> length (characters movie') = 2
         \<and> characters movie' ! 1 = characters draftMovie ! 1
         \<and> voiceLine (characters movie' ! 1) = None
         \<and> (\<exists>line. characters movie' ! 0 = (characters draftMovie ! 0)\<lparr>voiceLine := Some line\<rparr>))
   \<and> (\<exists>s1 m'. handleGenerate partialCastEnv ANALYZING_SCRIPT ''INT. BRIDGE'' None None False
                 ''Cinematic'' initialApp = Inr s1
         \<and> movieData s1 = Some m'
         \<and> map char_name (characters m') = [''Ann'', ''Bob'']
         \<and> map voiceActor (characters m') = [Some (mockActors ! 0), None]
         \<and> voiceLine (characters m' ! 1) = None)"
proof -
  have ids: "distinct (map char_id (characters draftMovie))"
    by (rule draftMovie_characters)
  have actors: "voiceActor (characters draftMovie ! 0) \<noteq> None"
    "voiceActor (characters draftMovie ! 1) = None"
    "voiceLine (characters draftMovie ! 1) = None"
    by (simp_all add: draftMovie_def draftCharacters_def)
  have "\<exists>movie' s'. stage_voiceLines liveEnv draftMovie draftApp = Inr (movie', s')"
    by (simp add: stage_voiceLines_def Let_def draftMovie_def draftCharacters_def liveEnv_def
          voiceLineCall_def)
  then obtain movie' s' where r: "stage_voiceLines liveEnv draftMovie draftApp = Inr (movie', s')"
    by (elim exE) (rule that)
  have run_ids: "\<forall>a. analyzeScript partialCastEnv ''INT. BRIDGE'' = Inr a
      \<longrightarrow> distinct (map char_id (analysis_characters a))"
    using liveEnv_analysis_ids
    by (simp add: partialCastEnv_def analyzeScript_def
          cong: sum.case_cong option.case_cong if_cong prod.case_cong)
  from partialCast_run obtain s1 m' where
    run: "handleGenerate partialCastEnv ANALYZING_SCRIPT ''INT. BRIDGE'' None None False
               ''Cinematic'' initialApp = Inr s1"
    and doc: "movieData s1 = Some m'"
    and names: "map char_name (characters m') = [''Ann'', ''Bob'']"
    and cast: "map voiceActor (characters m') = [Some (mockActors ! 0), None]"
    by (elim exE conjE) (rule that)
  note inst = voice_lines_only_for_cast [where movie = draftMovie and env = liveEnv
      and s = draftApp]
  note inst2 = voice_lines_only_for_cast [where env = partialCastEnv and sc = "''INT. BRIDGE''"
      and capturedStage = ANALYZING_SCRIPT and imageFile = None and videoFile = None
      and hq = False and ms = "''Cinematic''" and initial = initialApp and final = s1
      and m' = m']
  from inst ids
  have "length (characters movie') = length (characters draftMovie)
      \<and> (\<forall>i<length (characters draftMovie).
            (voiceActor (characters draftMovie ! i) = None
               \<longrightarrow> characters movie' ! i = characters draftMovie ! i)
          \<and> (voiceActor (characters draftMovie ! i) \<noteq> None
               \<longrightarrow> (\<exists>k line.
                      generateCharacterVoiceLine liveEnv k (characters draftMovie ! i) = Inr line
                    \<and> characters movie' ! i
                        = (characters draftMovie ! i)\<lparr>voiceLine := Some line\<rparr>)))"
    by (simp add: r)
  then have stage: "length (characters movie') = 2
    \<and> characters movie' ! 1 = characters draftMovie ! 1
    \<and> (\<exists>line. characters movie' ! 0 = (characters draftMovie ! 0)\<lparr>voiceLine := Some line\<rparr>)"
    using actors draftMovie_characters(3)
    by (metis One_nat_def less_2_cases_iff)
  then have a: "\<exists>movie' s'. stage_voiceLines liveEnv draftMovie draftApp = Inr (movie', s')
         \<and> length (characters movie') = 2
         \<and> characters movie' ! 1 = characters draftMovie ! 1
         \<and> voiceLine (characters movie' ! 1) = None
         \<and> (\<exists>line. characters movie' ! 0 = (characters draftMovie ! 0)\<lparr>voiceLine := Some line\<rparr>)"
    using r actors(3) by auto
  from inst2 run_ids run doc
  have all: "\<forall>c\<in>set (characters m'). voiceActor c = None \<longrightarrow> voiceLine c = None"
    by blast
  from cast have len: "length (characters m') = 2"
    by (metis length_map length_Cons list.size(3) numeral_2_eq_2)
  from cast len have "voiceActor (characters m' ! 1) = None"
    by (metis One_nat_def nth_Cons_0 nth_Cons_Suc nth_map one_less_numeral_iff semiring_norm(76))
  moreover have "characters m' ! 1 \<in> set (characters m')"
    using len by simp
  ultimately have bob: "voiceLine (characters m' ! 1) = None"
    using all by blast
  have b: "\<exists>s1 m'. handleGenerate partialCastEnv ANALYZING_SCRIPT ''INT. BRIDGE'' None None False
                 ''Cinematic'' initialApp = Inr s1
         \<and> movieData s1 = Some m'
         \<and> map char_name (characters m') = [''Ann'', ''Bob'']
         \<and> map voiceActor (characters m') = [Some (mockActors ! 0), None]
         \<and> voiceLine (characters m' ! 1) = None"
    by (intro exI conjI) (fact run, fact doc, fact names, fact cast, fact bob)
  show ?thesis
    by (intro conjI) (fact ids, fact actors(1), fact actors(2), fact a, fact b)
qed

end
